theory Spec2Isabelle
  imports Main "HOL-Library.Word" "HOL-Library.Sublist"
begin

section \<open>Machine types of the contract\<close>

text \<open>
  The controller is a Solidity 0.8 contract (\<^verbatim>\<open>src/unnamed/part_000\<close>,
  \<^verbatim>\<open>contract FranchiserController\<close>). Its integers are \<^verbatim>\<open>uint256\<close>, its
  identities are 160-bit addresses. Arithmetic on \<^verbatim>\<open>uint256\<close> is checked: an
  overflowing \<^verbatim>\<open>+\<close> or \<^verbatim>\<open>*\<close> aborts the call with \<^verbatim>\<open>Panic(0x11)\<close>, a division
  by zero with \<^verbatim>\<open>Panic(0x12)\<close>.
\<close>

type_synonym uint256 = "256 word"
type_synonym address = "160 word"

datatype panic = ArithmeticOverflow | DivisionByZero

datatype role = DEFAULT_ADMIN_ROLE | OWNER_ROLE | MANAGER_ROLE

text \<open>
  Every way a call can abort. \<open>Revert\<close> carries the message of a failed
  \<^verbatim>\<open>require\<close>; \<open>CalleeReverted\<close> is the failure of an external call the
  contract makes with a high-level call, which Solidity passes on to the caller.
\<close>

datatype error =
    Revert string
  | Panic panic
  | AccessControlUnauthorizedAccount address role
  | AccessControlBadConfirmation
  | ReentrancyGuardReentrantCall
  | CalleeReverted

definition checked_add :: "uint256 \<Rightarrow> uint256 \<Rightarrow> error + uint256" where
  "checked_add a b =
     (if unat a + unat b < 2 ^ 256 then Inr (a + b) else Inl (Panic ArithmeticOverflow))"

definition checked_mul :: "uint256 \<Rightarrow> uint256 \<Rightarrow> error + uint256" where
  "checked_mul a b =
     (if unat a * unat b < 2 ^ 256 then Inr (a * b) else Inl (Panic ArithmeticOverflow))"

definition checked_div :: "uint256 \<Rightarrow> uint256 \<Rightarrow> error + uint256" where
  "checked_div a b = (if b = 0 then Inl (Panic DivisionByZero) else Inr (a div b))"

text \<open>The unit literals \<^verbatim>\<open>1 gwei\<close>, \<^verbatim>\<open>1 ether\<close> (also written \<^verbatim>\<open>1e18\<close>) and \<^verbatim>\<open>1 days\<close>.\<close>

definition gwei :: uint256 where
  "gwei = 1000000000"

definition ether :: uint256 where
  "ether = 1000000000000000000"

definition one_day :: uint256 where
  "one_day = 86400"

section \<open>Data model\<close>

text \<open>\<^verbatim>\<open>struct Config\<close>, field for field.\<close>

record Config =
  maxPricePerToken :: uint256
  minProfitMargin :: uint256
  maxMintAmount :: uint256
  minMintAmount :: uint256
  autoMiningEnabled :: bool
  cooldownPeriod :: uint256
  maxGasPrice :: uint256

datatype event =
    ConfigUpdated uint256 uint256 uint256 uint256 bool uint256 uint256
  | TokensMinted address uint256 uint256 uint256
  | ETHWithdrawn address uint256
  | TokensWithdrawn address address uint256
  | EmergencyStop address

text \<open>
  The storage of the contract together with what the chain keeps for it: its ether
  balance (\<^verbatim>\<open>address(this).balance\<close>), the role table of \<^verbatim>\<open>AccessControl\<close>, the
  flag of \<^verbatim>\<open>ReentrancyGuard\<close> and the log of emitted events.
\<close>

record controller =
  config :: Config
  lastMintTimestamp :: uint256
  eth_balance :: uint256
  roles :: "(role \<times> address) set"
  entered :: bool
  events :: "event list"

text \<open>
  The Rig is an external contract behind \<^verbatim>\<open>interface IRig\<close>. One call of the
  controller sees it as four answers; \<open>None\<close> and \<open>False\<close> stand for a call
  that reverts. \<open>rig_mint\<close> takes the attached value, the recipient and the amount.
  The Rig keeps the ether it is paid and does not call back into the controller.
\<close>

record rig =
  rig_quotePrice :: "uint256 option"
  rig_quote :: "uint256 \<Rightarrow> uint256 option"
  rig_currentEpochId :: "uint256 option"
  rig_mint :: "uint256 \<Rightarrow> address \<Rightarrow> uint256 \<Rightarrow> bool"

text \<open>
  What one call reads from its transaction and from the world outside the contract:
  \<^verbatim>\<open>msg.sender\<close>, \<^verbatim>\<open>block.timestamp\<close>, \<^verbatim>\<open>tx.gasprice\<close>, the controller's own
  address \<^verbatim>\<open>address(this)\<close>, the Rig, the outcome of a plain ether transfer
  \<^verbatim>\<open>to.call{value: w}("")\<close> to another account, and the answers of an ERC20 token
  (\<open>None\<close>: the token reverts). For the ether transfer \<open>None\<close> is a call that
  fails and \<open>Some back\<close> one that succeeds, \<open>back\<close> being the ether the recipient
  sends to the controller's payable \<^verbatim>\<open>receive()\<close> while the call runs (0 for a
  recipient that keeps what it is sent).
\<close>

record env =
  msg_sender :: address
  block_timestamp :: uint256
  tx_gasprice :: uint256
  address_this :: address
  the_rig :: rig
  eth_call :: "address \<Rightarrow> uint256 \<Rightarrow> uint256 option"
  token_balanceOf :: "address \<Rightarrow> uint256 option"
  token_transfer :: "address \<Rightarrow> address \<Rightarrow> uint256 \<Rightarrow> bool option"

section \<open>Modifiers\<close>

text \<open>\<^verbatim>\<open>onlyRole(r)\<close> of AccessControl: the caller must hold the role.\<close>

definition onlyRole :: "role \<Rightarrow> env \<Rightarrow> controller \<Rightarrow> (error + 'a) \<Rightarrow> (error + 'a)" where
  "onlyRole r e s body =
     (if (r, msg_sender e) \<in> roles s then body
      else Inl (AccessControlUnauthorizedAccount (msg_sender e) r))"

text \<open>
  \<^verbatim>\<open>nonReentrant\<close> of ReentrancyGuard: refuse when the flag is set, run the body with
  the flag set, clear it afterwards.
\<close>

definition nonReentrant :: "(controller \<Rightarrow> error + controller) \<Rightarrow> controller \<Rightarrow> error + controller" where
  "nonReentrant body s =
     (if entered s then Inl ReentrancyGuardReentrantCall
      else (case body (s\<lparr>entered := True\<rparr>) of
              Inl err \<Rightarrow> Inl err
            | Inr s' \<Rightarrow> Inr (s'\<lparr>entered := False\<rparr>)))"

section \<open>Views\<close>

text \<open>
  \<^verbatim>\<open>checkProfitability\<close>: the early return for a price above the ceiling, then the
  two assignments to the named return values.
\<close>

definition checkProfitability :: "env \<Rightarrow> controller \<Rightarrow> error + (bool \<times> uint256 \<times> uint256)" where
  "checkProfitability e s =
     (case rig_quotePrice (the_rig e) of
        None \<Rightarrow> Inl CalleeReverted
      | Some currentPrice \<Rightarrow>
          if maxPricePerToken (config s) < currentPrice then Inr (False, currentPrice, 0)
          else
            (let isProfitable = (currentPrice \<le> maxPricePerToken (config s));
                 recommendedAmount = (if isProfitable then maxMintAmount (config s) else 0)
             in Inr (isProfitable, currentPrice, recommendedAmount)))"

text \<open>
  \<^verbatim>\<open>getMiningStatus\<close>. The source computes the sum
  \<^verbatim>\<open>lastMintTimestamp + config.cooldownPeriod\<close> behind the \<^verbatim>\<open>&&\<close> of
  \<open>canMintNow\<close> and once more, unconditionally, for \<open>nextMintTime\<close>; both are
  the same checked addition, so an overflow aborts the view on either path.
\<close>

definition getMiningStatus ::
  "env \<Rightarrow> controller \<Rightarrow> error + (bool \<times> bool \<times> uint256 \<times> uint256 \<times> uint256 \<times> uint256)" where
  "getMiningStatus e s =
     (let isEnabled = autoMiningEnabled (config s) in
      case rig_quotePrice (the_rig e) of
        None \<Rightarrow> Inl CalleeReverted
      | Some currentPrice \<Rightarrow>
          (case checked_add (lastMintTimestamp s) (cooldownPeriod (config s)) of
             Inl err \<Rightarrow> Inl err
           | Inr nextMintTime \<Rightarrow>
               (let canMintNow = (currentPrice \<le> maxPricePerToken (config s)
                                  \<and> nextMintTime \<le> block_timestamp e);
                    ethBalance = eth_balance s
                in case rig_currentEpochId (the_rig e) of
                     None \<Rightarrow> Inl CalleeReverted
                   | Some currentEpochId \<Rightarrow>
                       Inr (isEnabled, canMintNow, currentPrice, nextMintTime,
                            ethBalance, currentEpochId))))"

section \<open>Mutating operations\<close>

text \<open>
  The conditions of the \<^verbatim>\<open>require\<close> statements of \<^verbatim>\<open>executeMint\<close> that compute
  something first. Each yields the truth value the \<^verbatim>\<open>require\<close> tests, or the
  panic of the arithmetic inside it.

  \<^verbatim>\<open>block.timestamp >= lastMintTimestamp + config.cooldownPeriod\<close>:
\<close>

definition cooldownElapsed :: "env \<Rightarrow> controller \<Rightarrow> error + bool" where
  "cooldownElapsed e s =
     (case checked_add (lastMintTimestamp s) (cooldownPeriod (config s)) of
        Inl err \<Rightarrow> Inl err
      | Inr readyAt \<Rightarrow> Inr (readyAt \<le> block_timestamp e))"

text \<open>\<^verbatim>\<open>tx.gasprice <= config.maxGasPrice * 1 gwei\<close>:\<close>

definition gasPriceAcceptable :: "env \<Rightarrow> controller \<Rightarrow> error + bool" where
  "gasPriceAcceptable e s =
     (case checked_mul (maxGasPrice (config s)) gwei of
        Inl err \<Rightarrow> Inl err
      | Inr gasCeiling \<Rightarrow> Inr (tx_gasprice e \<le> gasCeiling))"

text \<open>\<^verbatim>\<open>uint256 pricePerToken = cost * 1e18 / amount\<close>: the product first, then the quotient.\<close>

definition pricePerToken :: "uint256 \<Rightarrow> uint256 \<Rightarrow> error + uint256" where
  "pricePerToken cost amount =
     (case checked_mul cost ether of
        Inl err \<Rightarrow> Inl err
      | Inr scaled \<Rightarrow> checked_div scaled amount)"

text \<open>
  \<^verbatim>\<open>executeMint\<close>, statement by statement. The body returns the new storage or the
  error that aborts it. The ether attached to \<^verbatim>\<open>mint{value: cost}\<close> leaves the
  balance with the call.
\<close>

definition executeMint_body :: "env \<Rightarrow> address \<Rightarrow> uint256 \<Rightarrow> controller \<Rightarrow> error + controller" where
  "executeMint_body e recipient amount s =
     (if \<not> autoMiningEnabled (config s) then Inl (Revert ''Auto mining disabled'')
      else if \<not> (minMintAmount (config s) \<le> amount \<and> amount \<le> maxMintAmount (config s))
        then Inl (Revert ''Amount out of bounds'')
      else (case cooldownElapsed e s of
        Inl err \<Rightarrow> Inl err
      | Inr elapsed \<Rightarrow>
      if \<not> elapsed then Inl (Revert ''Cooldown active'')
      else (case gasPriceAcceptable e s of
        Inl err \<Rightarrow> Inl err
      | Inr acceptable \<Rightarrow>
      if \<not> acceptable then Inl (Revert ''Gas price too high'')
      else (case rig_quote (the_rig e) amount of
        None \<Rightarrow> Inl CalleeReverted
      | Some cost \<Rightarrow>
      if \<not> (cost \<le> eth_balance s) then Inl (Revert ''Insufficient ETH balance'')
      else (case pricePerToken cost amount of
        Inl err \<Rightarrow> Inl err
      | Inr perToken \<Rightarrow>
      if \<not> (perToken \<le> maxPricePerToken (config s)) then Inl (Revert ''Price too high'')
      else (case rig_currentEpochId (the_rig e) of
        None \<Rightarrow> Inl CalleeReverted
      | Some epochId \<Rightarrow>
      if \<not> rig_mint (the_rig e) cost recipient amount then Inl CalleeReverted
      else Inr (s\<lparr>eth_balance := eth_balance s - cost,
                  lastMintTimestamp := block_timestamp e,
                  events := events s @ [TokensMinted recipient amount cost epochId]\<rparr>)))))))"

definition executeMint :: "env \<Rightarrow> address \<Rightarrow> uint256 \<Rightarrow> controller \<Rightarrow> error + controller" where
  "executeMint e recipient amount s =
     onlyRole MANAGER_ROLE e s (nonReentrant (executeMint_body e recipient amount) s)"

text \<open>
  All six conditions of \<^verbatim>\<open>executeMint\<close> hold: each \<^verbatim>\<open>require\<close> of the function
  evaluates to true, in the order of the source.
\<close>

definition preconditions_pass :: "env \<Rightarrow> uint256 \<Rightarrow> controller \<Rightarrow> bool" where
  "preconditions_pass e amount s =
     (autoMiningEnabled (config s) \<and>
      (minMintAmount (config s) \<le> amount \<and> amount \<le> maxMintAmount (config s)) \<and>
      cooldownElapsed e s = Inr True \<and>
      gasPriceAcceptable e s = Inr True \<and>
      (case rig_quote (the_rig e) amount of
         None \<Rightarrow> False
       | Some cost \<Rightarrow>
           cost \<le> eth_balance s \<and>
           (case pricePerToken cost amount of
              Inl err \<Rightarrow> False
            | Inr perToken \<Rightarrow> perToken \<le> maxPricePerToken (config s))))"

text \<open>\<^verbatim>\<open>updateConfig\<close>: three checks, seven field writes, one event.\<close>

definition updateConfig ::
  "env \<Rightarrow> uint256 \<Rightarrow> uint256 \<Rightarrow> uint256 \<Rightarrow> uint256 \<Rightarrow> bool \<Rightarrow> uint256 \<Rightarrow> uint256 \<Rightarrow>
   controller \<Rightarrow> error + controller" where
  "updateConfig e maxPricePerToken' minProfitMargin' maxMintAmount' minMintAmount'
       autoMiningEnabled' cooldownPeriod' maxGasPrice' s =
     onlyRole OWNER_ROLE e s
       (if \<not> (minMintAmount' \<le> maxMintAmount') then Inl (Revert ''Invalid mint amounts'')
        else if \<not> (cooldownPeriod' \<le> one_day) then Inl (Revert ''Cooldown too long'')
        else if \<not> (0 < maxGasPrice') then Inl (Revert ''Invalid gas price'')
        else Inr (s\<lparr>config := (config s)\<lparr>maxPricePerToken := maxPricePerToken',
                                           minProfitMargin := minProfitMargin',
                                           maxMintAmount := maxMintAmount',
                                           minMintAmount := minMintAmount',
                                           autoMiningEnabled := autoMiningEnabled',
                                           cooldownPeriod := cooldownPeriod',
                                           maxGasPrice := maxGasPrice'\<rparr>,
                    events := events s @ [ConfigUpdated maxPricePerToken' minProfitMargin'
                                            maxMintAmount' minMintAmount' autoMiningEnabled'
                                            cooldownPeriod' maxGasPrice']\<rparr>))"

definition emergencyStop :: "env \<Rightarrow> controller \<Rightarrow> error + controller" where
  "emergencyStop e s =
     onlyRole OWNER_ROLE e s
       (Inr (s\<lparr>config := (config s)\<lparr>autoMiningEnabled := False\<rparr>,
               events := events s @ [EmergencyStop (msg_sender e)]\<rparr>))"

text \<open>
  The transfer \<^verbatim>\<open>to.call{value: w}("")\<close> as the controller makes it. When the
  recipient is the controller itself the call runs its own \<^verbatim>\<open>receive()\<close>, which is
  payable, empty and not guarded: the call succeeds and the whole value comes back.
\<close>

definition eth_transfer :: "env \<Rightarrow> address \<Rightarrow> uint256 \<Rightarrow> uint256 option" where
  "eth_transfer e to w = (if to = address_this e then Some w else eth_call e to w)"

text \<open>
  \<^verbatim>\<open>withdrawETH\<close>. The value leaves the balance with the call; what the recipient
  sends back during the call is in the balance again when the call returns.
\<close>

definition withdrawETH_body :: "env \<Rightarrow> address \<Rightarrow> uint256 \<Rightarrow> controller \<Rightarrow> error + controller" where
  "withdrawETH_body e to amount s =
     (if to = 0 then Inl (Revert ''Invalid recipient'')
      else
        (let withdrawAmount = (if amount = 0 then eth_balance s else amount) in
         if \<not> (0 < withdrawAmount) then Inl (Revert ''No ETH to withdraw'')
         else if \<not> (withdrawAmount \<le> eth_balance s) then Inl (Revert ''Insufficient balance'')
         else (case eth_transfer e to withdrawAmount of
                 None \<Rightarrow> Inl (Revert ''ETH transfer failed'')
               | Some back \<Rightarrow>
                   Inr (s\<lparr>eth_balance := eth_balance s - withdrawAmount + back,
                          events := events s @ [ETHWithdrawn to withdrawAmount]\<rparr>))))"

definition withdrawETH :: "env \<Rightarrow> address \<Rightarrow> uint256 \<Rightarrow> controller \<Rightarrow> error + controller" where
  "withdrawETH e to amount s =
     onlyRole OWNER_ROLE e s (nonReentrant (withdrawETH_body e to amount) s)"

text \<open>
  \<^verbatim>\<open>withdrawTokens\<close>. Token balances live in the token contract; of the controller's
  own state only the event log changes.
\<close>

definition withdrawTokens_body ::
  "env \<Rightarrow> address \<Rightarrow> address \<Rightarrow> uint256 \<Rightarrow> controller \<Rightarrow> error + controller" where
  "withdrawTokens_body e token to amount s =
     (if token = 0 then Inl (Revert ''Invalid token'')
      else if to = 0 then Inl (Revert ''Invalid recipient'')
      else case token_balanceOf e token of
        None \<Rightarrow> Inl CalleeReverted
      | Some bal \<Rightarrow>
        (let withdrawAmount = (if amount = 0 then bal else amount) in
         if \<not> (0 < withdrawAmount) then Inl (Revert ''No tokens to withdraw'')
         else if \<not> (withdrawAmount \<le> bal) then Inl (Revert ''Insufficient token balance'')
         else case token_transfer e token to withdrawAmount of
           None \<Rightarrow> Inl CalleeReverted
         | Some ok \<Rightarrow>
             if \<not> ok then Inl (Revert ''Token transfer failed'')
             else Inr (s\<lparr>events := events s @ [TokensWithdrawn token to withdrawAmount]\<rparr>)))"

definition withdrawTokens ::
  "env \<Rightarrow> address \<Rightarrow> address \<Rightarrow> uint256 \<Rightarrow> controller \<Rightarrow> error + controller" where
  "withdrawTokens e token to amount s =
     onlyRole OWNER_ROLE e s (nonReentrant (withdrawTokens_body e token to amount) s)"

text \<open>\<^verbatim>\<open>receive() external payable {}\<close>: the value sent is added to the balance.\<close>

definition receive :: "uint256 \<Rightarrow> controller \<Rightarrow> error + controller" where
  "receive v s = Inr (s\<lparr>eth_balance := eth_balance s + v\<rparr>)"

text \<open>
  The role administration the contract inherits from the imported AccessControl base:
  \<^verbatim>\<open>DEFAULT_ADMIN_ROLE\<close> administers every role; \<^verbatim>\<open>renounceRole\<close> needs the
  caller's own address as confirmation. They touch the role table only.
\<close>

definition grantRole :: "env \<Rightarrow> role \<Rightarrow> address \<Rightarrow> controller \<Rightarrow> error + controller" where
  "grantRole e r account s =
     onlyRole DEFAULT_ADMIN_ROLE e s (Inr (s\<lparr>roles := insert (r, account) (roles s)\<rparr>))"

definition revokeRole :: "env \<Rightarrow> role \<Rightarrow> address \<Rightarrow> controller \<Rightarrow> error + controller" where
  "revokeRole e r account s =
     onlyRole DEFAULT_ADMIN_ROLE e s (Inr (s\<lparr>roles := roles s - {(r, account)}\<rparr>))"

definition renounceRole :: "env \<Rightarrow> role \<Rightarrow> address \<Rightarrow> controller \<Rightarrow> error + controller" where
  "renounceRole e r callerConfirmation s =
     (if callerConfirmation \<noteq> msg_sender e then Inl AccessControlBadConfirmation
      else Inr (s\<lparr>roles := roles s - {(r, callerConfirmation)}\<rparr>))"

text \<open>
  The constructor: three address checks, the three role grants and the default
  configuration (\<^verbatim>\<open>100 ether\<close>, \<^verbatim>\<open>1 ether\<close>, enabled, 300 seconds, \<^verbatim>\<open>10 gwei\<close>).
\<close>

definition constructor ::
  "address \<Rightarrow> address \<Rightarrow> address \<Rightarrow> uint256 \<Rightarrow> uint256 \<Rightarrow> error + controller" where
  "constructor franchiserRig' owner' manager' maxPricePerToken' minProfitMargin' =
     (if franchiserRig' = 0 then Inl (Revert ''Invalid rig address'')
      else if owner' = 0 then Inl (Revert ''Invalid owner'')
      else if manager' = 0 then Inl (Revert ''Invalid manager'')
      else Inr \<lparr>config = \<lparr>maxPricePerToken = maxPricePerToken',
                           minProfitMargin = minProfitMargin',
                           maxMintAmount = 100 * ether,
                           minMintAmount = 1 * ether,
                           autoMiningEnabled = True,
                           cooldownPeriod = 300,
                           maxGasPrice = 10 * gwei\<rparr>,
                lastMintTimestamp = 0,
                eth_balance = 0,
                roles = {(DEFAULT_ADMIN_ROLE, owner'), (OWNER_ROLE, owner'),
                         (MANAGER_ROLE, manager')},
                entered = False,
                events = []\<rparr>)"

section \<open>Calls as transactions\<close>

text \<open>
  One external call of the contract. A call that aborts reverts every effect it had,
  so the storage after a failed call is the storage before it. Views return a value
  and leave the storage as it is.
\<close>

datatype operation =
    ExecuteMint address uint256
  | UpdateConfig uint256 uint256 uint256 uint256 bool uint256 uint256
  | EmergencyStopCall
  | WithdrawETH address uint256
  | WithdrawTokens address address uint256
  | Receive uint256
  | GrantRole role address
  | RevokeRole role address
  | RenounceRole role address
  | CheckProfitability
  | GetMiningStatus
  | ReadConfig
  | ReadLastMintTimestamp

datatype retval =
    Done
  | Profitability bool uint256 uint256
  | MiningStatus bool bool uint256 uint256 uint256 uint256
  | ConfigValue Config
  | UintValue uint256

datatype outcome = Failed error | Returned retval

definition commit :: "controller \<Rightarrow> error + controller \<Rightarrow> controller \<times> outcome" where
  "commit s r = (case r of Inl err \<Rightarrow> (s, Failed err) | Inr s' \<Rightarrow> (s', Returned Done))"

definition answer :: "controller \<Rightarrow> error + retval \<Rightarrow> controller \<times> outcome" where
  "answer s r = (case r of Inl err \<Rightarrow> (s, Failed err) | Inr v \<Rightarrow> (s, Returned v))"

fun call :: "env \<Rightarrow> operation \<Rightarrow> controller \<Rightarrow> controller \<times> outcome" where
  "call e (ExecuteMint recipient amount) s = commit s (executeMint e recipient amount s)"
| "call e (UpdateConfig a b c d f g h) s = commit s (updateConfig e a b c d f g h s)"
| "call e EmergencyStopCall s = commit s (emergencyStop e s)"
| "call e (WithdrawETH to amount) s = commit s (withdrawETH e to amount s)"
| "call e (WithdrawTokens token to amount) s = commit s (withdrawTokens e token to amount s)"
| "call e (Receive v) s = commit s (receive v s)"
| "call e (GrantRole r a) s = commit s (grantRole e r a s)"
| "call e (RevokeRole r a) s = commit s (revokeRole e r a s)"
| "call e (RenounceRole r a) s = commit s (renounceRole e r a s)"
| "call e CheckProfitability s =
     answer s (map_sum id (\<lambda>(p, c, r). Profitability p c r) (checkProfitability e s))"
| "call e GetMiningStatus s =
     answer s (map_sum id (\<lambda>(en, can, p, n, b, ep). MiningStatus en can p n b ep)
                 (getMiningStatus e s))"
| "call e ReadConfig s = answer s (Inr (ConfigValue (config s)))"
| "call e ReadLastMintTimestamp s = answer s (Inr (UintValue (lastMintTimestamp s)))"

text \<open>A history of the contract: calls applied one after another.\<close>

fun run :: "(env \<times> operation) list \<Rightarrow> controller \<Rightarrow> controller" where
  "run [] s = s"
| "run ((e, opn) # rest) s = run rest (fst (call e opn s))"

section \<open>The mock Rig\<close>

text \<open>
  \<^verbatim>\<open>src/contracts/MockRig.sol\<close>: a price and an epoch; \<^verbatim>\<open>quote\<close> is the checked
  product divided by \<^verbatim>\<open>1e18\<close>, \<^verbatim>\<open>mint\<close> requires the payment to cover the quote.
\<close>

record MockRig =
  mock_currentPrice :: uint256
  mock_epochId :: uint256

definition mock_quote :: "MockRig \<Rightarrow> uint256 \<Rightarrow> uint256 option" where
  "mock_quote m amount =
     (case checked_mul (mock_currentPrice m) amount of
        Inl err \<Rightarrow> None
      | Inr p \<Rightarrow> Some (p div ether))"

definition mock_mint :: "MockRig \<Rightarrow> uint256 \<Rightarrow> address \<Rightarrow> uint256 \<Rightarrow> bool" where
  "mock_mint m msg_value to amount =
     (case mock_quote m amount of None \<Rightarrow> False | Some q \<Rightarrow> q \<le> msg_value)"

definition mockRig :: "MockRig \<Rightarrow> rig" where
  "mockRig m =
     \<lparr>rig_quotePrice = Some (mock_currentPrice m),
      rig_quote = mock_quote m,
      rig_currentEpochId = Some (mock_epochId m),
      rig_mint = mock_mint m\<rparr>"

definition mock_setPrice :: "uint256 \<Rightarrow> MockRig \<Rightarrow> MockRig" where
  "mock_setPrice newPrice m = m\<lparr>mock_currentPrice := newPrice\<rparr>"

definition mock_setEpoch :: "uint256 \<Rightarrow> MockRig \<Rightarrow> MockRig" where
  "mock_setEpoch newEpoch m = m\<lparr>mock_epochId := newEpoch\<rparr>"

text \<open>The freshly deployed mock: price \<^verbatim>\<open>0.0005 ether\<close>, epoch 1.\<close>

definition mockRig_initial :: MockRig where
  "mockRig_initial = \<lparr>mock_currentPrice = 500000000000000, mock_epochId = 1\<rparr>"

section \<open>The Monitor's tick\<close>

text \<open>
  \<^verbatim>\<open>checkAndMine\<close> of the monitor script (\<^verbatim>\<open>src/test/FranchiserController.test.js\<close>,
  from line 156 on). One tick is modelled against the answers the controller gives
  during it; an \<open>Inl\<close> answer is an \<^verbatim>\<open>await\<close> that throws with that message. The
  result is the sequence of remote calls and log lines the tick produces, and the
  updated counters. The two floating-point totals and the wall-clock time of
  \<^verbatim>\<open>stats\<close> are not part of the model.
\<close>

record status =
  isEnabled :: bool
  canMintNow :: bool
  currentPrice :: uint256
  nextMintTime :: uint256
  ethBalance :: uint256
  currentEpochId :: uint256

record receipt =
  receipt_status :: nat
  receipt_TokensMinted :: "(uint256 \<times> uint256 \<times> uint256) option"

record responses =
  on_getMiningStatus :: "string + status"
  on_checkProfitability :: "string + (bool \<times> uint256 \<times> uint256)"
  on_executeMint :: "address \<Rightarrow> uint256 \<Rightarrow> string + unit"
  on_wait :: "string + receipt"

record stats =
  checksPerformed :: nat
  mintsExecuted :: nat
  errors :: nat

datatype logline =
    LogAutoMiningDisabled
  | LogCheck uint256 uint256 uint256
  | LogCooldownActive uint256
  | LogNotProfitable
  | LogProfitable uint256
  | LogSubmitted
  | LogMintSuccessful uint256 uint256 uint256
  | LogTransactionFailed
  | LogCooldownWaiting
  | LogInsufficientETH
  | LogPriceTooHigh
  | LogError string

datatype action =
    Read_getMiningStatus
  | Read_checkProfitability
  | Send_executeMint address uint256 nat
  | Await_receipt
  | Log logline

text \<open>\<^verbatim>\<open>String.prototype.includes\<close> on the error message.\<close>

fun str_includes :: "string \<Rightarrow> string \<Rightarrow> bool" where
  "str_includes [] needle = (needle = [])"
| "str_includes (c # cs) needle = (prefix needle (c # cs) \<or> str_includes cs needle)"

text \<open>The \<^verbatim>\<open>try\<close> block: the trace so far, the counters, and the message thrown, if any.\<close>

definition checkAndMine_try ::
  "responses \<Rightarrow> address \<Rightarrow> stats \<Rightarrow> action list \<times> stats \<times> string option" where
  "checkAndMine_try r recipient st0 =
     (let st = st0\<lparr>checksPerformed := checksPerformed st0 + 1\<rparr> in
      (case on_getMiningStatus r of
        Inl msg \<Rightarrow> ([Read_getMiningStatus], st, Some msg)
      | Inr status \<Rightarrow>
      if \<not> isEnabled status
        then ([Read_getMiningStatus, Log LogAutoMiningDisabled], st, None)
      else (case on_checkProfitability r of
        Inl msg \<Rightarrow> ([Read_getMiningStatus, Read_checkProfitability], st, Some msg)
      | Inr (isProfitable, price, recommendedAmount) \<Rightarrow>
      (let tr = [Read_getMiningStatus, Read_checkProfitability,
                 Log (LogCheck price (currentEpochId status) (ethBalance status))] in
       if \<not> canMintNow status
         then (tr @ [Log (LogCooldownActive (nextMintTime status))], st, None)
       else if \<not> isProfitable \<or> recommendedAmount = 0
         then (tr @ [Log LogNotProfitable], st, None)
       else
         (let tr = tr @ [Log (LogProfitable recommendedAmount),
                         Send_executeMint recipient recommendedAmount 500000] in
          (case on_executeMint r recipient recommendedAmount of
            Inl msg \<Rightarrow> (tr, st, Some msg)
          | Inr u \<Rightarrow>
          (let tr = tr @ [Log LogSubmitted, Await_receipt] in
           (case on_wait r of
             Inl msg \<Rightarrow> (tr, st, Some msg)
           | Inr rc \<Rightarrow>
             if receipt_status rc = 1 then
               (case receipt_TokensMinted rc of
                  None \<Rightarrow> (tr, st, None)
                | Some (amount, cost, epochId) \<Rightarrow>
                    (tr @ [Log (LogMintSuccessful amount cost epochId)],
                     st\<lparr>mintsExecuted := mintsExecuted st + 1\<rparr>, None))
             else (tr @ [Log LogTransactionFailed],
                   st\<lparr>errors := errors st + 1\<rparr>, None)))))))))"

text \<open>The \<^verbatim>\<open>catch\<close> block: count the error, pick the log line by the message.\<close>

definition classify :: "string \<Rightarrow> logline" where
  "classify msg =
     (if str_includes msg ''Auto mining disabled'' then LogAutoMiningDisabled
      else if str_includes msg ''Cooldown active'' then LogCooldownWaiting
      else if str_includes msg ''Price too high'' then LogPriceTooHigh
      else if str_includes msg ''Insufficient ETH balance'' then LogInsufficientETH
      else LogError msg)"

definition checkAndMine :: "responses \<Rightarrow> address \<Rightarrow> stats \<Rightarrow> action list \<times> stats" where
  "checkAndMine r recipient st0 =
     (case checkAndMine_try r recipient st0 of
        (tr, st, None) \<Rightarrow> (tr, st)
      | (tr, st, Some msg) \<Rightarrow> (tr @ [Log (classify msg)], st\<lparr>errors := errors st + 1\<rparr>))"

section \<open>Fixtures\<close>

text \<open>
  The deployment of the test suite (\<^verbatim>\<open>beforeEach\<close> of
  \<^verbatim>\<open>src/test/FranchiserController.test.js\<close>): owner 1, manager 2, a third user 3,
  the Rig at address 4, a price ceiling of \<^verbatim>\<open>0.001 ether\<close> and a margin of 1000
  basis points; \<open>funded\<close> is that controller after it received \<^verbatim>\<open>1 ether\<close>.
\<close>

definition deployed :: controller where
  "deployed =
     \<lparr>config = \<lparr>maxPricePerToken = 1000000000000000,
                minProfitMargin = 1000,
                maxMintAmount = 100000000000000000000,
                minMintAmount = 1000000000000000000,
                autoMiningEnabled = True,
                cooldownPeriod = 300,
                maxGasPrice = 10000000000\<rparr>,
      lastMintTimestamp = 0,
      eth_balance = 0,
      roles = {(DEFAULT_ADMIN_ROLE, 1), (OWNER_ROLE, 1), (MANAGER_ROLE, 2)},
      entered = False,
      events = []\<rparr>"

definition funded :: controller where
  "funded = deployed\<lparr>eth_balance := 1000000000000000000\<rparr>"

text \<open>
  A call by \<open>sender\<close> at time \<open>now\<close> with gas price \<open>gasprice\<close>, against the
  fresh mock Rig; the controller sits at address 5 and the accounts it pays keep the
  ether.
\<close>

definition test_env :: "address \<Rightarrow> uint256 \<Rightarrow> uint256 \<Rightarrow> env" where
  "test_env sender now gasprice =
     \<lparr>msg_sender = sender, block_timestamp = now, tx_gasprice = gasprice,
      address_this = 5,
      the_rig = mockRig mockRig_initial,
      eth_call = (\<lambda>to w. Some 0),
      token_balanceOf = (\<lambda>token. None),
      token_transfer = (\<lambda>token to w. None)\<rparr>"

text \<open>A Rig that answers quotes as the mock does and whose \<^verbatim>\<open>mint\<close> reverts.\<close>

definition stalled_env :: "address \<Rightarrow> uint256 \<Rightarrow> uint256 \<Rightarrow> env" where
  "stalled_env sender now gasprice =
     (test_env sender now gasprice)
       \<lparr>the_rig := (mockRig mockRig_initial)\<lparr>rig_mint := (\<lambda>v to amount. False)\<rparr>\<rparr>"

text \<open>
  The configuration after the update of the test \<^verbatim>\<open>Should update config (owner only)\<close>:
  a ceiling of \<^verbatim>\<open>0.002 ether\<close>, amounts between 2 and 200 tokens, a cooldown of 600
  seconds and \<open>maxGasPrice = 20\<close>.
\<close>

definition reconfigured :: controller where
  "reconfigured =
     funded\<lparr>config := \<lparr>maxPricePerToken = 2000000000000000,
                         minProfitMargin = 2000,
                         maxMintAmount = 200000000000000000000,
                         minMintAmount = 2000000000000000000,
                         autoMiningEnabled = True,
                         cooldownPeriod = 600,
                         maxGasPrice = 20\<rparr>,
             events := [ConfigUpdated 2000000000000000 2000 200000000000000000000
                          2000000000000000000 True 600 20]\<rparr>"

text \<open>
  The funded controller after an owner set \<open>minMintAmount\<close> to zero and
  \<open>maxGasPrice\<close> to 10 (gwei), the other values as deployed.
\<close>

definition zero_floor :: controller where
  "zero_floor =
     funded\<lparr>config := \<lparr>maxPricePerToken = 1000000000000000,
                         minProfitMargin = 1000,
                         maxMintAmount = 100000000000000000000,
                         minMintAmount = 0,
                         autoMiningEnabled = True,
                         cooldownPeriod = 300,
                         maxGasPrice = 10\<rparr>,
             events := [ConfigUpdated 1000000000000000 1000 100000000000000000000 0 True 300 10]\<rparr>"

text \<open>
  A tick of the Monitor during a cooldown: mining is enabled, \<open>canMintNow\<close> is
  false, the price is favourable.
\<close>

definition cooling_status :: status where
  "cooling_status =
     \<lparr>isEnabled = True, canMintNow = False, currentPrice = 500000000000000,
      nextMintTime = 1700000300, ethBalance = 995000000000000000, currentEpochId = 1\<rparr>"

definition cooling_responses :: responses where
  "cooling_responses =
     \<lparr>on_getMiningStatus = Inr cooling_status,
      on_checkProfitability = Inr (True, 500000000000000, 100000000000000000000),
      on_executeMint = (\<lambda>recipient amount. Inl ''execution reverted: Cooldown active''),
      on_wait = Inl ''no transaction''\<rparr>"

definition fresh_stats :: stats where
  "fresh_stats = \<lparr>checksPerformed = 0, mintsExecuted = 0, errors = 0\<rparr>"

section \<open>Arithmetic of the checks\<close>

lemmas fixture_defs = test_env_def mockRig_def mockRig_initial_def mock_quote_def mock_mint_def
  funded_def deployed_def
lemmas arith_defs = cooldownElapsed_def gasPriceAcceptable_def pricePerToken_def
  checked_add_def checked_mul_def checked_div_def gwei_def ether_def

lemma checked_add_Inr: "checked_add a b = Inr c \<longleftrightarrow> unat a + unat b < 2 ^ 256 \<and> c = a + b"
  by (auto simp: checked_add_def)

lemma checked_mul_Inr: "checked_mul a b = Inr c \<longleftrightarrow> unat a * unat b < 2 ^ 256 \<and> c = a * b"
  by (auto simp: checked_mul_def)

lemma unat_add_exact: "unat a + unat b < 2 ^ 256 \<Longrightarrow> unat ((a::uint256) + b) = unat a + unat b"
  by (simp add: unat_word_ariths)

lemma unat_mul_exact: "unat a * unat b < 2 ^ 256 \<Longrightarrow> unat ((a::uint256) * b) = unat a * unat b"
  by (simp add: unat_word_ariths)

lemma unat_gwei: "unat gwei = 1000000000"
  by (simp add: gwei_def)

lemma unat_ether: "unat ether = 1000000000000000000"
  by (simp add: ether_def)

lemma cooldownElapsed_Inr:
  "cooldownElapsed e s = Inr b \<longleftrightarrow>
     unat (lastMintTimestamp s) + unat (cooldownPeriod (config s)) < 2 ^ 256 \<and>
     b = (unat (lastMintTimestamp s) + unat (cooldownPeriod (config s)) \<le> unat (block_timestamp e))"
  by (auto simp: cooldownElapsed_def checked_add_def word_le_nat_alt unat_add_exact)

lemma gasPriceAcceptable_Inr:
  "gasPriceAcceptable e s = Inr b \<longleftrightarrow>
     unat (maxGasPrice (config s)) * 1000000000 < 2 ^ 256 \<and>
     b = (unat (tx_gasprice e) \<le> unat (maxGasPrice (config s)) * 1000000000)"
  by (auto simp: gasPriceAcceptable_def checked_mul_def word_le_nat_alt unat_mul_exact unat_gwei)

lemma gasPriceAcceptable_Inl:
  "gasPriceAcceptable e s = Inl err \<longleftrightarrow>
     \<not> unat (maxGasPrice (config s)) * 1000000000 < 2 ^ 256 \<and> err = Panic ArithmeticOverflow"
  by (auto simp: gasPriceAcceptable_def checked_mul_def unat_gwei)

lemma pricePerToken_Inr:
  "pricePerToken cost amount = Inr p \<longleftrightarrow>
     unat cost * 1000000000000000000 < 2 ^ 256 \<and> amount \<noteq> 0 \<and>
     p = (cost * ether) div amount"
  by (auto simp: pricePerToken_def checked_mul_def checked_div_def unat_ether)

lemma pricePerToken_unat:
  "pricePerToken cost amount = Inr p \<Longrightarrow>
     unat p = (unat cost * 1000000000000000000) div unat amount"
  by (auto simp: pricePerToken_Inr unat_div unat_mul_exact unat_ether)

lemma cooldownElapsed_Inl:
  "cooldownElapsed e s = Inl err \<longleftrightarrow>
     \<not> unat (lastMintTimestamp s) + unat (cooldownPeriod (config s)) < 2 ^ 256 \<and>
     err = Panic ArithmeticOverflow"
  by (auto simp: cooldownElapsed_def checked_add_def)

lemma pricePerToken_Inl:
  "pricePerToken cost amount = Inl err \<longleftrightarrow>
     (\<not> unat cost * 1000000000000000000 < 2 ^ 256 \<and> err = Panic ArithmeticOverflow) \<or>
     (unat cost * 1000000000000000000 < 2 ^ 256 \<and> amount = 0 \<and> err = Panic DivisionByZero)"
  by (auto simp: pricePerToken_def checked_mul_def checked_div_def unat_ether)

lemma cooldownElapsed_entered [simp]:
  "cooldownElapsed e (s\<lparr>entered := b\<rparr>) = cooldownElapsed e s"
  by (simp add: cooldownElapsed_def)

lemma gasPriceAcceptable_entered [simp]:
  "gasPriceAcceptable e (s\<lparr>entered := b\<rparr>) = gasPriceAcceptable e s"
  by (simp add: gasPriceAcceptable_def)

lemma entered_update_same: "entered s = b \<Longrightarrow> s\<lparr>entered := b\<rparr> = s"
  by (cases s) simp

lemma nonReentrant_transparent:
  assumes "\<not> entered s"
    and "body (s\<lparr>entered := True\<rparr>) = map_sum id (\<lambda>t. t\<lparr>entered := True\<rparr>) (body s)"
    and "\<And>s'. body s = Inr s' \<Longrightarrow> entered s' = entered s"
  shows "nonReentrant body s = body s"
proof (cases "body s")
  case (Inl err)
  with assms show ?thesis by (simp add: nonReentrant_def)
next
  case (Inr s')
  with assms have "entered s' = False" by simp
  then have "s'\<lparr>entered := False\<rparr> = s'" by (rule entered_update_same)
  with assms Inr show ?thesis by (simp add: nonReentrant_def)
qed

lemma executeMint_body_entered:
  "executeMint_body e r a (s\<lparr>entered := b\<rparr>) =
     map_sum id (\<lambda>t. t\<lparr>entered := b\<rparr>) (executeMint_body e r a s)"
  by (simp add: executeMint_body_def split: sum.splits option.splits)

lemma executeMint_body_keeps_entered:
  "executeMint_body e r a s = Inr s' \<Longrightarrow> entered s' = entered s"
  by (auto simp: executeMint_body_def split: sum.splits option.splits if_splits)

lemma executeMint_authorised:
  "(MANAGER_ROLE, msg_sender e) \<in> roles s \<Longrightarrow> \<not> entered s \<Longrightarrow>
     executeMint e r a s = executeMint_body e r a s"
  by (simp add: executeMint_def onlyRole_def nonReentrant_transparent
        executeMint_body_entered executeMint_body_keeps_entered)

lemma executeMint_refused:
  "(MANAGER_ROLE, msg_sender e) \<notin> roles s \<or> entered s \<Longrightarrow>
     \<exists>err. executeMint e r a s = Inl err \<and> (\<forall>msg. err \<noteq> Revert msg) \<and> (\<forall>p. err \<noteq> Panic p)"
  by (auto simp: executeMint_def onlyRole_def nonReentrant_def)


lemma deployed_by_constructor: "constructor 4 1 2 1000000000000000 1000 = Inr deployed"
  by (simp add: constructor_def deployed_def ether_def gwei_def)

lemma funded_by_receive: "fst (call (test_env 1 1000 1) (Receive ether) deployed) = funded"
  by (simp add: commit_def receive_def funded_def deployed_def ether_def)

lemma executeMint_Inr_D:
  assumes "executeMint e r a s = Inr s'"
  shows "(MANAGER_ROLE, msg_sender e) \<in> roles s \<and> \<not> entered s \<and>
         executeMint_body e r a s = Inr s'"
proof -
  from assms have auth: "(MANAGER_ROLE, msg_sender e) \<in> roles s" and fresh: "\<not> entered s"
    by (auto simp: executeMint_def onlyRole_def nonReentrant_def split: if_splits)
  with assms show ?thesis by (simp add: executeMint_authorised)
qed

lemma withdrawETH_body_entered:
  "withdrawETH_body e to amount (s\<lparr>entered := b\<rparr>) =
     map_sum id (\<lambda>t. t\<lparr>entered := b\<rparr>) (withdrawETH_body e to amount s)"
  by (simp add: withdrawETH_body_def Let_def split: option.splits)

lemma withdrawETH_body_keeps_entered:
  "withdrawETH_body e to amount s = Inr s' \<Longrightarrow> entered s' = entered s"
  by (auto simp: withdrawETH_body_def Let_def split: if_splits option.splits)

lemma withdrawETH_authorised:
  "(OWNER_ROLE, msg_sender e) \<in> roles s \<Longrightarrow> \<not> entered s \<Longrightarrow>
     withdrawETH e to amount s = withdrawETH_body e to amount s"
  by (simp add: withdrawETH_def onlyRole_def nonReentrant_transparent
        withdrawETH_body_entered withdrawETH_body_keeps_entered)

lemma call_other_keeps_lastMint:
  "\<forall>r a. opn \<noteq> ExecuteMint r a \<Longrightarrow>
     lastMintTimestamp (fst (call e opn s)) = lastMintTimestamp s"
proof (cases opn)
  case (WithdrawETH to amount)
  then show ?thesis
    by (auto simp: commit_def withdrawETH_def withdrawETH_body_def onlyRole_def nonReentrant_def
          Let_def split: sum.splits if_splits option.splits)
next
  case (WithdrawTokens token to amount)
  then show ?thesis
    by (auto simp: commit_def withdrawTokens_def withdrawTokens_body_def onlyRole_def
          nonReentrant_def Let_def split: sum.splits if_splits option.splits)
qed (auto simp: commit_def answer_def updateConfig_def emergencyStop_def receive_def
       grantRole_def revokeRole_def renounceRole_def onlyRole_def split: sum.splits)

lemma call_mint_failed_keeps_state:
  "snd (call e opn s) \<noteq> Returned Done \<Longrightarrow> fst (call e opn s) = s"
  by (cases opn) (auto simp: commit_def answer_def split: sum.splits)

lemma mint_success_D:
  assumes "snd (call e (ExecuteMint r a) s) = Returned Done"
  shows "lastMintTimestamp (fst (call e (ExecuteMint r a) s)) = block_timestamp e \<and>
         unat (lastMintTimestamp s) + unat (cooldownPeriod (config s)) \<le> unat (block_timestamp e)"
proof -
  from assms obtain s' where ex: "executeMint e r a s = Inr s'"
    by (auto simp: commit_def split: sum.splits)
  then have body: "executeMint_body e r a s = Inr s'"
    by (simp add: executeMint_Inr_D)
  then have "cooldownElapsed e s = Inr True" and "lastMintTimestamp s' = block_timestamp e"
    by (auto simp: executeMint_body_def split: if_splits sum.splits option.splits)
  with ex show ?thesis
    by (simp add: commit_def cooldownElapsed_Inr)
qed

lemma call_lastMint_mono:
  "unat (lastMintTimestamp s) \<le> unat (lastMintTimestamp (fst (call e opn s)))"
proof (cases "(\<exists>r a. opn = ExecuteMint r a) \<and> snd (call e opn s) = Returned Done")
  case True
  then show ?thesis using mint_success_D by fastforce
next
  case False
  then have "lastMintTimestamp (fst (call e opn s)) = lastMintTimestamp s"
    using call_other_keeps_lastMint [of opn e s] call_mint_failed_keeps_state [of e opn s]
    by auto
  then show ?thesis by simp
qed

lemma run_lastMint_mono:
  "unat (lastMintTimestamp s) \<le> unat (lastMintTimestamp (run tr s))"
proof (induction tr arbitrary: s)
  case Nil
  show ?case by simp
next
  case (Cons x tr)
  obtain e opn where x: "x = (e, opn)" by (cases x)
  have "unat (lastMintTimestamp s) \<le> unat (lastMintTimestamp (fst (call e opn s)))"
    by (rule call_lastMint_mono)
  also have "\<dots> \<le> unat (lastMintTimestamp (run tr (fst (call e opn s))))"
    by (rule Cons.IH)
  finally show ?case by (simp add: x)
qed

text \<open>
  Between calls the flag of the reentrancy guard is clear: the constructor leaves it
  clear and every call, failed or not, ends with it clear.
\<close>

lemma call_keeps_fresh:
  assumes "\<not> entered s"
  shows "\<not> entered (fst (call e opn s))"
proof (cases opn)
  case (ExecuteMint r a)
  with assms show ?thesis
    by (auto simp: commit_def executeMint_def onlyRole_def nonReentrant_def split: sum.splits)
next
  case (WithdrawETH to amount)
  with assms show ?thesis
    by (auto simp: commit_def withdrawETH_def onlyRole_def nonReentrant_def split: sum.splits)
next
  case (WithdrawTokens token to amount)
  with assms show ?thesis
    by (auto simp: commit_def withdrawTokens_def onlyRole_def nonReentrant_def split: sum.splits)
qed (use assms in \<open>auto simp: commit_def answer_def updateConfig_def emergencyStop_def receive_def
       grantRole_def revokeRole_def renounceRole_def onlyRole_def split: sum.splits\<close>)

lemma run_keeps_fresh: "\<not> entered s \<Longrightarrow> \<not> entered (run tr s)"
  by (induction tr arbitrary: s) (auto simp: call_keeps_fresh)

lemma constructor_fresh: "constructor rg ow mg mp mm = Inr s \<Longrightarrow> \<not> entered s"
  by (auto simp: constructor_def split: if_splits)

section \<open>Profitability view\<close>

text \<open>
  C5. Whatever the configuration and whatever spot price \<open>p\<close> the Rig returns,
  \<^verbatim>\<open>checkProfitability\<close> answers \<open>(false, p, 0)\<close> when \<open>p\<close> is above
  \<open>maxPricePerToken\<close> and \<open>(true, p, maxMintAmount)\<close> otherwise, and the storage
  after the call is the storage before it.
\<close>

theorem checkProfitability_policy:
  "rig_quotePrice (the_rig e) = Some p \<Longrightarrow>
   call e CheckProfitability s =
     (s, Returned (if maxPricePerToken (config s) < p then Profitability False p 0
                   else Profitability True p (maxMintAmount (config s))))"
  by (auto simp: answer_def checkProfitability_def Let_def not_le)


theorem checkProfitability_policy_witness:
  "rig_quotePrice (the_rig (test_env 2 1700000000 1000000000)) = Some 500000000000000 \<and>
   call (test_env 2 1700000000 1000000000) CheckProfitability funded =
     (funded, Returned (Profitability True 500000000000000 100000000000000000000))"
  using checkProfitability_policy
          [of "test_env 2 1700000000 1000000000" 500000000000000 funded]
  by (simp add: test_env_def mockRig_def mockRig_initial_def funded_def deployed_def)

text \<open>
  C9. Under a configuration with \<open>minMintAmount \<le> maxMintAmount\<close>, a nonzero
  recommended amount returned by \<^verbatim>\<open>checkProfitability\<close> is \<open>maxMintAmount\<close>; it
  lies within the bounds \<^verbatim>\<open>executeMint\<close> checks, so a call of \<^verbatim>\<open>executeMint\<close>
  with it under the same configuration never fails with the bounds error.
\<close>

theorem recommended_amount_in_bounds:
  "minMintAmount (config s) \<le> maxMintAmount (config s) \<Longrightarrow>
   checkProfitability e s = Inr (profitable, price, recommended) \<Longrightarrow>
   recommended \<noteq> 0 \<Longrightarrow>
   config s' = config s \<Longrightarrow>
     recommended = maxMintAmount (config s) \<and>
     minMintAmount (config s') \<le> recommended \<and> recommended \<le> maxMintAmount (config s') \<and>
     snd (call e' (ExecuteMint recipient recommended) s') \<noteq> Failed (Revert ''Amount out of bounds'')"
proof -
  assume bounds: "minMintAmount (config s) \<le> maxMintAmount (config s)"
    and cp: "checkProfitability e s = Inr (profitable, price, recommended)"
    and nz: "recommended \<noteq> 0" and cfg: "config s' = config s"
  from cp nz have rec: "recommended = maxMintAmount (config s)"
    by (auto simp: checkProfitability_def Let_def split: option.splits if_splits)
  have "executeMint e' recipient recommended s' \<noteq> Inl (Revert ''Amount out of bounds'')"
  proof (cases "(MANAGER_ROLE, msg_sender e') \<in> roles s' \<and> \<not> entered s'")
    case True
    then have "executeMint e' recipient recommended s' = executeMint_body e' recipient recommended s'"
      by (simp add: executeMint_authorised)
    with rec bounds cfg show ?thesis
      by (auto simp: executeMint_body_def cooldownElapsed_Inl gasPriceAcceptable_Inl pricePerToken_Inl
          split: sum.splits option.splits if_splits)
  next
    case False
    then obtain err where "executeMint e' recipient recommended s' = Inl err" "\<forall>msg. err \<noteq> Revert msg"
      using executeMint_refused [of e' s' recipient recommended] by blast
    then show ?thesis by auto
  qed
  then have "snd (call e' (ExecuteMint recipient recommended) s') \<noteq> Failed (Revert ''Amount out of bounds'')"
    by (auto simp: commit_def split: sum.splits)
  with rec bounds cfg show ?thesis by simp
qed


theorem recommended_amount_in_bounds_witness:
  "minMintAmount (config funded) \<le> maxMintAmount (config funded) \<and>
   checkProfitability (test_env 2 1700000000 1000000000) funded =
     Inr (True, 500000000000000, 100000000000000000000) \<and>
   (100000000000000000000 :: uint256) \<noteq> 0 \<and>
   snd (call (test_env 2 1700000300 1000000000) (ExecuteMint 3 100000000000000000000) funded)
     \<noteq> Failed (Revert ''Amount out of bounds'')"
proof -
  have cp: "checkProfitability (test_env 2 1700000000 1000000000) funded =
              Inr (True, 500000000000000, 100000000000000000000)"
    by (simp add: checkProfitability_def test_env_def mockRig_def mockRig_initial_def
          funded_def deployed_def)
  have le: "minMintAmount (config funded) \<le> maxMintAmount (config funded)"
    by (simp add: funded_def deployed_def)
  have nz: "(100000000000000000000 :: uint256) \<noteq> 0" by simp
  from recommended_amount_in_bounds [OF le cp nz refl, of "test_env 2 1700000300 1000000000" 3]
  show ?thesis using cp le nz by simp
qed

section \<open>Configuration update\<close>

text \<open>
  C6. A call of \<^verbatim>\<open>updateConfig\<close> by an owner succeeds exactly when
  \<open>maxMintAmount \<ge> minMintAmount\<close>, \<open>cooldownPeriod \<le> 86400\<close> and
  \<open>maxGasPrice > 0\<close>. After a successful call any read of \<^verbatim>\<open>config\<close> returns
  exactly the seven new values. When a bound is violated the call is rejected with a
  \<^verbatim>\<open>require\<close> message and the storage, the configuration included, is unchanged.
\<close>

theorem updateConfig_validation:
  "(OWNER_ROLE, msg_sender e) \<in> roles s \<Longrightarrow>
   (snd (call e (UpdateConfig a b c d f g h) s) = Returned Done
      \<longleftrightarrow> d \<le> c \<and> g \<le> 86400 \<and> 0 < h) \<and>
   (d \<le> c \<and> g \<le> 86400 \<and> 0 < h \<longrightarrow>
      call e' ReadConfig (fst (call e (UpdateConfig a b c d f g h) s)) =
        (fst (call e (UpdateConfig a b c d f g h) s),
         Returned (ConfigValue \<lparr>maxPricePerToken = a, minProfitMargin = b, maxMintAmount = c,
                      minMintAmount = d, autoMiningEnabled = f, cooldownPeriod = g,
                      maxGasPrice = h\<rparr>))) \<and>
   (\<not> (d \<le> c \<and> g \<le> 86400 \<and> 0 < h) \<longrightarrow>
      fst (call e (UpdateConfig a b c d f g h) s) = s \<and>
      (\<exists>msg. snd (call e (UpdateConfig a b c d f g h) s) = Failed (Revert msg)))"
  by (simp add: commit_def answer_def updateConfig_def onlyRole_def one_day_def)

theorem updateConfig_validation_witness:
  "(OWNER_ROLE, msg_sender (test_env 1 1700000000 1000000000)) \<in> roles funded \<and>
   snd (call (test_env 1 1700000000 1000000000)
          (UpdateConfig 2000000000000000 2000 200000000000000000000 2000000000000000000 True 600 20)
          funded) = Returned Done \<and>
   snd (call (test_env 3 1700000001 1)
          ReadConfig
          (fst (call (test_env 1 1700000000 1000000000)
                  (UpdateConfig 2000000000000000 2000 200000000000000000000 2000000000000000000
                     True 600 20) funded))) =
     Returned (ConfigValue \<lparr>maxPricePerToken = 2000000000000000, minProfitMargin = 2000,
                 maxMintAmount = 200000000000000000000, minMintAmount = 2000000000000000000,
                 autoMiningEnabled = True, cooldownPeriod = 600, maxGasPrice = 20\<rparr>) \<and>
   call (test_env 1 1700000000 1000000000)
     (UpdateConfig 2000000000000000 2000 1000000000000000000 2000000000000000000 True 600 20)
     funded = (funded, Failed (Revert ''Invalid mint amounts''))"
proof -
  have own: "(OWNER_ROLE, msg_sender (test_env 1 1700000000 1000000000)) \<in> roles funded"
    by (simp add: fixture_defs)
  note ok = updateConfig_validation [OF own, of 2000000000000000 2000 200000000000000000000
      2000000000000000000 True 600 20 "test_env 3 1700000001 1"]
  note bad = updateConfig_validation [OF own, of 2000000000000000 2000 1000000000000000000
      2000000000000000000 True 600 20 "test_env 3 1700000001 1"]
  have rej: "call (test_env 1 1700000000 1000000000)
     (UpdateConfig 2000000000000000 2000 1000000000000000000 2000000000000000000 True 600 20)
     funded = (funded, Failed (Revert ''Invalid mint amounts''))"
    by (simp add: commit_def updateConfig_def onlyRole_def fixture_defs)
  from ok own rej show ?thesis by simp
qed

section \<open>The guarded mint\<close>

text \<open>
  C1. When the six conditions of \<^verbatim>\<open>executeMint\<close> hold and the forwarded
  \<^verbatim>\<open>mint\<close> call of the Rig fails, the call of \<^verbatim>\<open>executeMint\<close> fails and the
  storage is what it was: \<open>lastMintTimestamp\<close> is not advanced, the balance is not
  reduced and no event is added to the log.
\<close>

theorem executeMint_rig_failure_atomic:
  assumes "(MANAGER_ROLE, msg_sender e) \<in> roles s" and "\<not> entered s"
    and "preconditions_pass e amount s"
    and "rig_quote (the_rig e) amount = Some cost"
    and "\<not> rig_mint (the_rig e) cost recipient amount"
  shows "call e (ExecuteMint recipient amount) s = (s, Failed CalleeReverted) \<and>
         lastMintTimestamp (fst (call e (ExecuteMint recipient amount) s)) = lastMintTimestamp s \<and>
         eth_balance (fst (call e (ExecuteMint recipient amount) s)) = eth_balance s \<and>
         events (fst (call e (ExecuteMint recipient amount) s)) = events s"
proof -
  from assms(1,2) have "executeMint e recipient amount s = executeMint_body e recipient amount s"
    by (rule executeMint_authorised)
  moreover from assms(3,4,5) have "executeMint_body e recipient amount s = Inl CalleeReverted"
    by (auto simp: preconditions_pass_def executeMint_body_def split: sum.splits option.splits)
  ultimately show ?thesis by (simp add: commit_def)
qed

theorem executeMint_rig_failure_atomic_witness:
  "(MANAGER_ROLE, msg_sender (stalled_env 2 1700000000 1000000000)) \<in> roles funded \<and>
   \<not> entered funded \<and>
   preconditions_pass (stalled_env 2 1700000000 1000000000) 10000000000000000000 funded \<and>
   rig_quote (the_rig (stalled_env 2 1700000000 1000000000)) 10000000000000000000
     = Some 5000000000000000 \<and>
   \<not> rig_mint (the_rig (stalled_env 2 1700000000 1000000000)) 5000000000000000 3
       10000000000000000000 \<and>
   call (stalled_env 2 1700000000 1000000000) (ExecuteMint 3 10000000000000000000) funded
     = (funded, Failed CalleeReverted)"
proof -
  have a: "(MANAGER_ROLE, msg_sender (stalled_env 2 1700000000 1000000000)) \<in> roles funded"
    by (simp add: stalled_env_def fixture_defs)
  have b: "\<not> entered funded" by (simp add: stalled_env_def fixture_defs)
  have q: "rig_quote (the_rig (stalled_env 2 1700000000 1000000000)) 10000000000000000000
     = Some 5000000000000000"
    by (simp add: stalled_env_def fixture_defs arith_defs)
  have c: "preconditions_pass (stalled_env 2 1700000000 1000000000) 10000000000000000000 funded"
    unfolding preconditions_pass_def q by (simp add: stalled_env_def fixture_defs arith_defs)
  have d: "\<not> rig_mint (the_rig (stalled_env 2 1700000000 1000000000)) 5000000000000000 3
       10000000000000000000"
    by (simp add: stalled_env_def fixture_defs)
  from executeMint_rig_failure_atomic [OF a b c q d] a b c q d show ?thesis by simp
qed

text \<open>
  C2. For a call by a manager, the six conditions are tested in the order: enabled,
  amount within bounds, cooldown elapsed, gas price acceptable, quoted cost covered by
  the balance, implied price per token within the ceiling. The first one that is false
  aborts the call with its own message; the six messages are pairwise different; and
  every failed call leaves the storage unchanged. A condition is true or false as the
  source evaluates it (\<open>Inr True\<close>, \<open>Inr False\<close>); when the checked arithmetic
  inside one overflows, the call aborts there with the panic, which the last conjunct
  covers as well.
\<close>

theorem executeMint_guards_in_order:
  assumes "(MANAGER_ROLE, msg_sender e) \<in> roles s" and "\<not> entered s"
  shows
   "(\<not> autoMiningEnabled (config s) \<longrightarrow>
       call e (ExecuteMint r a) s = (s, Failed (Revert ''Auto mining disabled''))) \<and>
    (autoMiningEnabled (config s) \<and>
     \<not> (minMintAmount (config s) \<le> a \<and> a \<le> maxMintAmount (config s)) \<longrightarrow>
       call e (ExecuteMint r a) s = (s, Failed (Revert ''Amount out of bounds''))) \<and>
    (autoMiningEnabled (config s) \<and>
     minMintAmount (config s) \<le> a \<and> a \<le> maxMintAmount (config s) \<and>
     cooldownElapsed e s = Inr False \<longrightarrow>
       call e (ExecuteMint r a) s = (s, Failed (Revert ''Cooldown active''))) \<and>
    (autoMiningEnabled (config s) \<and>
     minMintAmount (config s) \<le> a \<and> a \<le> maxMintAmount (config s) \<and>
     cooldownElapsed e s = Inr True \<and> gasPriceAcceptable e s = Inr False \<longrightarrow>
       call e (ExecuteMint r a) s = (s, Failed (Revert ''Gas price too high''))) \<and>
    (autoMiningEnabled (config s) \<and>
     minMintAmount (config s) \<le> a \<and> a \<le> maxMintAmount (config s) \<and>
     cooldownElapsed e s = Inr True \<and> gasPriceAcceptable e s = Inr True \<and>
     rig_quote (the_rig e) a = Some cost \<and> \<not> cost \<le> eth_balance s \<longrightarrow>
       call e (ExecuteMint r a) s = (s, Failed (Revert ''Insufficient ETH balance''))) \<and>
    (autoMiningEnabled (config s) \<and>
     minMintAmount (config s) \<le> a \<and> a \<le> maxMintAmount (config s) \<and>
     cooldownElapsed e s = Inr True \<and> gasPriceAcceptable e s = Inr True \<and>
     rig_quote (the_rig e) a = Some cost \<and> cost \<le> eth_balance s \<and>
     pricePerToken cost a = Inr perToken \<and> \<not> perToken \<le> maxPricePerToken (config s) \<longrightarrow>
       call e (ExecuteMint r a) s = (s, Failed (Revert ''Price too high''))) \<and>
    distinct [''Auto mining disabled'', ''Amount out of bounds'', ''Cooldown active'',
              ''Gas price too high'', ''Insufficient ETH balance'', ''Price too high''] \<and>
    (\<forall>err. snd (call e (ExecuteMint r a) s) = Failed err \<longrightarrow>
            fst (call e (ExecuteMint r a) s) = s)"
proof -
  from assms have body: "executeMint e r a s = executeMint_body e r a s"
    by (rule executeMint_authorised)
  have rollback: "\<forall>err. snd (call e (ExecuteMint r a) s) = Failed err \<longrightarrow>
            fst (call e (ExecuteMint r a) s) = s"
    by (simp add: commit_def split: sum.splits)
  have names: "distinct [''Auto mining disabled'', ''Amount out of bounds'', ''Cooldown active'',
              ''Gas price too high'', ''Insufficient ETH balance'', ''Price too high'']"
    by simp
  have call_body: "call e (ExecuteMint r a) s = commit s (executeMint_body e r a s)"
    by (simp add: body)
  have c1: "\<not> autoMiningEnabled (config s) \<longrightarrow>
       call e (ExecuteMint r a) s = (s, Failed (Revert ''Auto mining disabled''))"
    unfolding call_body by (simp add: commit_def executeMint_body_def)
  have c2: "autoMiningEnabled (config s) \<and>
     \<not> (minMintAmount (config s) \<le> a \<and> a \<le> maxMintAmount (config s)) \<longrightarrow>
       call e (ExecuteMint r a) s = (s, Failed (Revert ''Amount out of bounds''))"
    unfolding call_body by (auto simp: commit_def executeMint_body_def)
  have c3: "autoMiningEnabled (config s) \<and>
     minMintAmount (config s) \<le> a \<and> a \<le> maxMintAmount (config s) \<and>
     cooldownElapsed e s = Inr False \<longrightarrow>
       call e (ExecuteMint r a) s = (s, Failed (Revert ''Cooldown active''))"
    unfolding call_body by (simp add: commit_def executeMint_body_def)
  have c4: "autoMiningEnabled (config s) \<and>
     minMintAmount (config s) \<le> a \<and> a \<le> maxMintAmount (config s) \<and>
     cooldownElapsed e s = Inr True \<and> gasPriceAcceptable e s = Inr False \<longrightarrow>
       call e (ExecuteMint r a) s = (s, Failed (Revert ''Gas price too high''))"
    unfolding call_body by (simp add: commit_def executeMint_body_def)
  have c5: "autoMiningEnabled (config s) \<and>
     minMintAmount (config s) \<le> a \<and> a \<le> maxMintAmount (config s) \<and>
     cooldownElapsed e s = Inr True \<and> gasPriceAcceptable e s = Inr True \<and>
     rig_quote (the_rig e) a = Some cost \<and> \<not> cost \<le> eth_balance s \<longrightarrow>
       call e (ExecuteMint r a) s = (s, Failed (Revert ''Insufficient ETH balance''))"
    unfolding call_body by (simp add: commit_def executeMint_body_def)
  have c6: "autoMiningEnabled (config s) \<and>
     minMintAmount (config s) \<le> a \<and> a \<le> maxMintAmount (config s) \<and>
     cooldownElapsed e s = Inr True \<and> gasPriceAcceptable e s = Inr True \<and>
     rig_quote (the_rig e) a = Some cost \<and> cost \<le> eth_balance s \<and>
     pricePerToken cost a = Inr perToken \<and> \<not> perToken \<le> maxPricePerToken (config s) \<longrightarrow>
       call e (ExecuteMint r a) s = (s, Failed (Revert ''Price too high''))"
    unfolding call_body by (simp add: commit_def executeMint_body_def)
  show ?thesis
    by (intro conjI c1 c2 c3 c4 c5 c6 names rollback)
qed

theorem executeMint_guards_in_order_witness:
  "call (test_env 2 1700000000 1000000000) (ExecuteMint 3 10000000000000000000)
     (funded\<lparr>config := (config funded)\<lparr>autoMiningEnabled := False\<rparr>\<rparr>)
     = (funded\<lparr>config := (config funded)\<lparr>autoMiningEnabled := False\<rparr>\<rparr>,
        Failed (Revert ''Auto mining disabled'')) \<and>
   call (test_env 2 1700000000 1000000000) (ExecuteMint 3 500000000000000000) funded
     = (funded, Failed (Revert ''Amount out of bounds'')) \<and>
   call (test_env 2 1700000100 1000000000) (ExecuteMint 3 10000000000000000000)
     (funded\<lparr>lastMintTimestamp := 1700000000\<rparr>)
     = (funded\<lparr>lastMintTimestamp := 1700000000\<rparr>, Failed (Revert ''Cooldown active'')) \<and>
   call (test_env 2 1700000000 20000000000000000000) (ExecuteMint 3 10000000000000000000) funded
     = (funded, Failed (Revert ''Gas price too high'')) \<and>
   call (test_env 2 1700000000 1000000000) (ExecuteMint 3 10000000000000000000) deployed
     = (deployed, Failed (Revert ''Insufficient ETH balance'')) \<and>
   call (test_env 2 1700000000 1000000000) (ExecuteMint 3 10000000000000000000)
     (funded\<lparr>config := (config funded)\<lparr>maxPricePerToken := 100000000000000\<rparr>\<rparr>)
     = (funded\<lparr>config := (config funded)\<lparr>maxPricePerToken := 100000000000000\<rparr>\<rparr>,
        Failed (Revert ''Price too high''))"
proof -
  let ?e = "test_env 2 1700000000 1000000000"
  let ?amt = "10000000000000000000 :: uint256"
  let ?cost = "5000000000000000 :: uint256"
  have q: "\<And>t g. rig_quote (the_rig (test_env 2 t g)) ?amt = Some ?cost"
    by (simp add: fixture_defs arith_defs)
  have w1: "call ?e (ExecuteMint 3 ?amt)
     (funded\<lparr>config := (config funded)\<lparr>autoMiningEnabled := False\<rparr>\<rparr>)
     = (funded\<lparr>config := (config funded)\<lparr>autoMiningEnabled := False\<rparr>\<rparr>,
        Failed (Revert ''Auto mining disabled''))"
    using executeMint_guards_in_order
            [of ?e "funded\<lparr>config := (config funded)\<lparr>autoMiningEnabled := False\<rparr>\<rparr>" 3 ?amt]
    by (simp add: fixture_defs)
  have w2: "call ?e (ExecuteMint 3 500000000000000000) funded
     = (funded, Failed (Revert ''Amount out of bounds''))"
    using executeMint_guards_in_order [of ?e funded 3 500000000000000000]
    by (simp add: fixture_defs)
  have w3: "call (test_env 2 1700000100 1000000000) (ExecuteMint 3 ?amt)
     (funded\<lparr>lastMintTimestamp := 1700000000\<rparr>)
     = (funded\<lparr>lastMintTimestamp := 1700000000\<rparr>, Failed (Revert ''Cooldown active''))"
    using executeMint_guards_in_order
            [of "test_env 2 1700000100 1000000000" "funded\<lparr>lastMintTimestamp := 1700000000\<rparr>" 3 ?amt]
    by (simp add: fixture_defs arith_defs)
  have w4: "call (test_env 2 1700000000 20000000000000000000) (ExecuteMint 3 ?amt) funded
     = (funded, Failed (Revert ''Gas price too high''))"
    using executeMint_guards_in_order [of "test_env 2 1700000000 20000000000000000000" funded 3 ?amt]
    by (simp add: fixture_defs arith_defs)
  have w5: "call ?e (ExecuteMint 3 ?amt) deployed
     = (deployed, Failed (Revert ''Insufficient ETH balance''))"
    using executeMint_guards_in_order [of ?e deployed 3 ?amt ?cost] q [of 1700000000 1000000000]
    by (simp add: test_env_def deployed_def arith_defs)
  have w6: "call ?e (ExecuteMint 3 ?amt)
     (funded\<lparr>config := (config funded)\<lparr>maxPricePerToken := 100000000000000\<rparr>\<rparr>)
     = (funded\<lparr>config := (config funded)\<lparr>maxPricePerToken := 100000000000000\<rparr>\<rparr>,
        Failed (Revert ''Price too high''))"
    using executeMint_guards_in_order
            [of ?e "funded\<lparr>config := (config funded)\<lparr>maxPricePerToken := 100000000000000\<rparr>\<rparr>"
               3 ?amt ?cost 500000000000000]
          q [of 1700000000 1000000000]
    by (simp add: test_env_def funded_def deployed_def arith_defs)
  from w1 w2 w3 w4 w5 w6 show ?thesis by (intro conjI)
qed

text \<open>
  C3, as stated: the gas-price check passes exactly when \<^verbatim>\<open>tx.gasprice\<close> is at most
  the configured \<open>maxGasPrice\<close>. It does not hold: after the owner's update to
  \<open>maxGasPrice = 20\<close> a call at a gas price of 21 wei passes the check, and the mint
  goes through.
\<close>

theorem gas_check_unscaled_counterexample:
  "call (test_env 1 1700000000 1000000000)
     (UpdateConfig 2000000000000000 2000 200000000000000000000 2000000000000000000 True 600 20)
     funded = (reconfigured, Returned Done) \<and>
   \<not> (gasPriceAcceptable (test_env 2 1700000000 21) reconfigured = Inr True
        \<longleftrightarrow> tx_gasprice (test_env 2 1700000000 21) \<le> maxGasPrice (config reconfigured)) \<and>
   tx_gasprice (test_env 2 1700000000 21) = 21 \<and>
   maxGasPrice (config reconfigured) = 20 \<and>
   snd (call (test_env 2 1700000000 21) (ExecuteMint 3 10000000000000000000) reconfigured)
     = Returned Done"
  by (simp add: commit_def updateConfig_def executeMint_def executeMint_body_def onlyRole_def
        nonReentrant_def one_day_def reconfigured_def fixture_defs arith_defs)

text \<open>
  C3, amended. \<open>maxGasPrice\<close> is a number of gwei: for a call that reaches the
  gas-price check, the check passes exactly when \<open>maxGasPrice * 10^9\<close> fits in 256
  bits and \<^verbatim>\<open>tx.gasprice\<close> is at most that product; the call fails with
  \<^verbatim>\<open>Gas price too high\<close> exactly when the product fits and the gas price is above
  it; and when the product does not fit the call aborts with the overflow panic.
\<close>

theorem gas_check_scaled_by_gwei:
  assumes "(MANAGER_ROLE, msg_sender e) \<in> roles s" and "\<not> entered s"
    and "autoMiningEnabled (config s)"
    and "minMintAmount (config s) \<le> a \<and> a \<le> maxMintAmount (config s)"
    and "cooldownElapsed e s = Inr True"
  shows
    "(gasPriceAcceptable e s = Inr True \<longleftrightarrow>
        unat (maxGasPrice (config s)) * 1000000000 < 2 ^ 256 \<and>
        unat (tx_gasprice e) \<le> unat (maxGasPrice (config s)) * 1000000000) \<and>
     (call e (ExecuteMint r a) s = (s, Failed (Revert ''Gas price too high'')) \<longleftrightarrow>
        unat (maxGasPrice (config s)) * 1000000000 < 2 ^ 256 \<and>
        unat (maxGasPrice (config s)) * 1000000000 < unat (tx_gasprice e)) \<and>
     (unat (maxGasPrice (config s)) * 1000000000 < 2 ^ 256 \<or>
        call e (ExecuteMint r a) s = (s, Failed (Panic ArithmeticOverflow)))"
proof -
  from assms(1,2) have body: "call e (ExecuteMint r a) s = commit s (executeMint_body e r a s)"
    by (simp add: executeMint_authorised)
  have g1: "gasPriceAcceptable e s = Inr True \<longleftrightarrow>
        unat (maxGasPrice (config s)) * 1000000000 < 2 ^ 256 \<and>
        unat (tx_gasprice e) \<le> unat (maxGasPrice (config s)) * 1000000000"
    by (auto simp: gasPriceAcceptable_Inr)
  have g23:
    "(call e (ExecuteMint r a) s = (s, Failed (Revert ''Gas price too high'')) \<longleftrightarrow>
        unat (maxGasPrice (config s)) * 1000000000 < 2 ^ 256 \<and>
        unat (maxGasPrice (config s)) * 1000000000 < unat (tx_gasprice e)) \<and>
     (unat (maxGasPrice (config s)) * 1000000000 < 2 ^ 256 \<or>
        call e (ExecuteMint r a) s = (s, Failed (Panic ArithmeticOverflow)))"
  proof (cases "gasPriceAcceptable e s")
    case (Inl err)
    with assms(3,4,5) have res: "executeMint_body e r a s = Inl err"
      by (simp add: executeMint_body_def)
    note ovf = gasPriceAcceptable_Inl [THEN iffD1, OF Inl]
    note ov = ovf [THEN conjunct1] and err = ovf [THEN conjunct2]
    from ov show ?thesis
      unfolding body res err by (simp add: commit_def)
  next
    case (Inr b)
    note inr = gasPriceAcceptable_Inr [THEN iffD1, OF Inr]
    note fits = inr [THEN conjunct1] and b = inr [THEN conjunct2]
    show ?thesis
    proof (cases b)
      case True
      with Inr assms(3,4,5)
      have "executeMint_body e r a s \<noteq> Inl (Revert ''Gas price too high'')"
        by (auto simp: executeMint_body_def pricePerToken_Inl split: option.splits sum.splits)
      then have "call e (ExecuteMint r a) s \<noteq> (s, Failed (Revert ''Gas price too high''))"
        unfolding body by (auto simp: commit_def split: sum.splits)
      with fits True b show ?thesis by auto
    next
      case False
      with Inr assms(3,4,5)
      have "executeMint_body e r a s = Inl (Revert ''Gas price too high'')"
        by (simp add: executeMint_body_def)
      then have "call e (ExecuteMint r a) s = (s, Failed (Revert ''Gas price too high''))"
        unfolding body by (simp add: commit_def)
      with fits False b show ?thesis by auto
    qed
  qed
  then have g2: "call e (ExecuteMint r a) s = (s, Failed (Revert ''Gas price too high'')) \<longleftrightarrow>
        unat (maxGasPrice (config s)) * 1000000000 < 2 ^ 256 \<and>
        unat (maxGasPrice (config s)) * 1000000000 < unat (tx_gasprice e)"
    and g3: "unat (maxGasPrice (config s)) * 1000000000 < 2 ^ 256 \<or>
        call e (ExecuteMint r a) s = (s, Failed (Panic ArithmeticOverflow))"
    by blast+
  from g1 g2 g3 show ?thesis by (intro conjI)
qed

theorem gas_check_scaled_by_gwei_witness:
  "gasPriceAcceptable (test_env 2 1700000000 21) reconfigured = Inr True \<and>
   call (test_env 2 1700000000 20000000001) (ExecuteMint 3 10000000000000000000) reconfigured
     = (reconfigured, Failed (Revert ''Gas price too high'')) \<and>
   call (test_env 2 1700000000 21) (ExecuteMint 3 10000000000000000000)
     (reconfigured\<lparr>config := (config reconfigured)\<lparr>maxGasPrice := 2 ^ 255\<rparr>\<rparr>)
     = (reconfigured\<lparr>config := (config reconfigured)\<lparr>maxGasPrice := 2 ^ 255\<rparr>\<rparr>,
        Failed (Panic ArithmeticOverflow))"
proof -
  let ?a = "10000000000000000000 :: uint256"
  let ?big = "reconfigured\<lparr>config := (config reconfigured)\<lparr>maxGasPrice := 2 ^ 255\<rparr>\<rparr>"
  have w1: "gasPriceAcceptable (test_env 2 1700000000 21) reconfigured = Inr True"
    using gas_check_scaled_by_gwei [of "test_env 2 1700000000 21" reconfigured ?a 3]
    by (simp add: reconfigured_def fixture_defs cooldownElapsed_def checked_add_def)
  have w2: "call (test_env 2 1700000000 20000000001) (ExecuteMint 3 ?a) reconfigured
     = (reconfigured, Failed (Revert ''Gas price too high''))"
    using gas_check_scaled_by_gwei [of "test_env 2 1700000000 20000000001" reconfigured ?a 3]
    by (simp add: reconfigured_def fixture_defs cooldownElapsed_def checked_add_def)
  have w3: "call (test_env 2 1700000000 21) (ExecuteMint 3 ?a) ?big
     = (?big, Failed (Panic ArithmeticOverflow))"
    using gas_check_scaled_by_gwei [of "test_env 2 1700000000 21" ?big ?a 3]
    by (simp add: reconfigured_def fixture_defs cooldownElapsed_def checked_add_def)
  from w1 w2 w3 show ?thesis by (intro conjI)
qed

text \<open>
  C10. \<^verbatim>\<open>executeMint\<close> computes the price per token as
  \<open>cost * 10^18 div amount\<close>, and a successful mint had a nonzero amount and a price
  so computed within the ceiling. Under a configuration with \<open>minMintAmount > 0\<close> an
  amount within the bounds is nonzero, so the division is defined and the call never
  aborts with a division by zero. \<^verbatim>\<open>updateConfig\<close> accepts \<open>minMintAmount = 0\<close>
  (any \<open>maxMintAmount\<close> is at least 0), and under such a configuration a call with
  amount 0 that gets past the first five checks aborts with the division-by-zero panic.
\<close>

theorem pricePerToken_division:
  "(pricePerToken cost amount = Inr perToken \<longrightarrow>
      unat perToken = unat cost * 1000000000000000000 div unat amount) \<and>
   (snd (call e (ExecuteMint r amount) s) = Returned Done \<longrightarrow>
      (\<exists>quoted. rig_quote (the_rig e) amount = Some quoted \<and> amount \<noteq> 0 \<and>
         unat quoted * 1000000000000000000 div unat amount
           \<le> unat (maxPricePerToken (config s)))) \<and>
   (0 < minMintAmount (config s) \<and>
    minMintAmount (config s) \<le> amount \<and> amount \<le> maxMintAmount (config s) \<longrightarrow>
      amount \<noteq> 0 \<and>
      pricePerToken cost amount \<noteq> Inl (Panic DivisionByZero) \<and>
      snd (call e (ExecuteMint r amount) s) \<noteq> Failed (Panic DivisionByZero)) \<and>
   ((OWNER_ROLE, msg_sender e) \<in> roles s \<and> g \<le> 86400 \<and> 0 < h \<longrightarrow>
      snd (call e (UpdateConfig a b c 0 f g h) s) = Returned Done \<and>
      minMintAmount (config (fst (call e (UpdateConfig a b c 0 f g h) s))) = 0) \<and>
   ((MANAGER_ROLE, msg_sender e) \<in> roles s \<and> \<not> entered s \<and>
    autoMiningEnabled (config s) \<and> minMintAmount (config s) = 0 \<and>
    cooldownElapsed e s = Inr True \<and> gasPriceAcceptable e s = Inr True \<and>
    rig_quote (the_rig e) 0 = Some cost \<and> cost \<le> eth_balance s \<and>
    unat cost * 1000000000000000000 < 2 ^ 256 \<longrightarrow>
      call e (ExecuteMint r 0) s = (s, Failed (Panic DivisionByZero)))"
proof -
  have p1: "pricePerToken cost amount = Inr perToken \<longrightarrow>
      unat perToken = unat cost * 1000000000000000000 div unat amount"
    by (simp add: pricePerToken_unat)
  have p2: "snd (call e (ExecuteMint r amount) s) = Returned Done \<longrightarrow>
      (\<exists>quoted. rig_quote (the_rig e) amount = Some quoted \<and> amount \<noteq> 0 \<and>
         unat quoted * 1000000000000000000 div unat amount
           \<le> unat (maxPricePerToken (config s)))"
  proof
    assume ok: "snd (call e (ExecuteMint r amount) s) = Returned Done"
    then obtain s' where "executeMint e r amount s = Inr s'"
      by (auto simp: commit_def split: sum.splits)
    then have "executeMint_body e r amount s = Inr s'"
      by (simp add: executeMint_Inr_D)
    then obtain quoted perToken' where q: "rig_quote (the_rig e) amount = Some quoted"
      and pp: "pricePerToken quoted amount = Inr perToken'"
      and le: "perToken' \<le> maxPricePerToken (config s)"
      by (auto simp: executeMint_body_def split: if_splits sum.splits option.splits)
    from pp have "amount \<noteq> 0" by (simp add: pricePerToken_Inr)
    moreover from pp le have "unat quoted * 1000000000000000000 div unat amount
           \<le> unat (maxPricePerToken (config s))"
      using pricePerToken_unat [OF pp] by (simp add: word_le_nat_alt)
    ultimately show "\<exists>quoted. rig_quote (the_rig e) amount = Some quoted \<and> amount \<noteq> 0 \<and>
         unat quoted * 1000000000000000000 div unat amount
           \<le> unat (maxPricePerToken (config s))"
      using q by blast
  qed
  have p3: "0 < minMintAmount (config s) \<and>
    minMintAmount (config s) \<le> amount \<and> amount \<le> maxMintAmount (config s) \<longrightarrow>
      amount \<noteq> 0 \<and>
      pricePerToken cost amount \<noteq> Inl (Panic DivisionByZero) \<and>
      snd (call e (ExecuteMint r amount) s) \<noteq> Failed (Panic DivisionByZero)"
  proof
    assume b: "0 < minMintAmount (config s) \<and>
      minMintAmount (config s) \<le> amount \<and> amount \<le> maxMintAmount (config s)"
    then have nz: "amount \<noteq> 0" by auto
    then have pp: "\<And>c. pricePerToken c amount \<noteq> Inl (Panic DivisionByZero)"
      by (simp add: pricePerToken_Inl)
    have "executeMint e r amount s \<noteq> Inl (Panic DivisionByZero)"
    proof (cases "(MANAGER_ROLE, msg_sender e) \<in> roles s \<and> \<not> entered s")
      case True
      then have "executeMint e r amount s = executeMint_body e r amount s"
        by (simp add: executeMint_authorised)
      with pp show ?thesis
        by (auto simp: executeMint_body_def cooldownElapsed_Inl gasPriceAcceptable_Inl
              split: sum.splits option.splits if_splits)
    next
      case False
      then obtain err where "executeMint e r amount s = Inl err" "\<forall>p. err \<noteq> Panic p"
        using executeMint_refused [of e s r amount] by blast
      then show ?thesis by auto
    qed
    then have "snd (call e (ExecuteMint r amount) s) \<noteq> Failed (Panic DivisionByZero)"
      by (auto simp: commit_def split: sum.splits)
    with nz pp show "amount \<noteq> 0 \<and>
      pricePerToken cost amount \<noteq> Inl (Panic DivisionByZero) \<and>
      snd (call e (ExecuteMint r amount) s) \<noteq> Failed (Panic DivisionByZero)"
      by simp
  qed
  have p4: "(OWNER_ROLE, msg_sender e) \<in> roles s \<and> g \<le> 86400 \<and> 0 < h \<longrightarrow>
      snd (call e (UpdateConfig a b c 0 f g h) s) = Returned Done \<and>
      minMintAmount (config (fst (call e (UpdateConfig a b c 0 f g h) s))) = 0"
    by (simp add: commit_def updateConfig_def onlyRole_def one_day_def)
  have p5: "(MANAGER_ROLE, msg_sender e) \<in> roles s \<and> \<not> entered s \<and>
    autoMiningEnabled (config s) \<and> minMintAmount (config s) = 0 \<and>
    cooldownElapsed e s = Inr True \<and> gasPriceAcceptable e s = Inr True \<and>
    rig_quote (the_rig e) 0 = Some cost \<and> cost \<le> eth_balance s \<and>
    unat cost * 1000000000000000000 < 2 ^ 256 \<longrightarrow>
      call e (ExecuteMint r 0) s = (s, Failed (Panic DivisionByZero))"
  proof
    assume h: "(MANAGER_ROLE, msg_sender e) \<in> roles s \<and> \<not> entered s \<and>
      autoMiningEnabled (config s) \<and> minMintAmount (config s) = 0 \<and>
      cooldownElapsed e s = Inr True \<and> gasPriceAcceptable e s = Inr True \<and>
      rig_quote (the_rig e) 0 = Some cost \<and> cost \<le> eth_balance s \<and>
      unat cost * 1000000000000000000 < 2 ^ 256"
    then have "executeMint e r 0 s = executeMint_body e r 0 s"
      by (simp add: executeMint_authorised)
    moreover from h have "pricePerToken cost 0 = Inl (Panic DivisionByZero)"
      by (simp add: pricePerToken_Inl)
    ultimately show "call e (ExecuteMint r 0) s = (s, Failed (Panic DivisionByZero))"
      using h by (simp add: commit_def executeMint_body_def)
  qed
  show ?thesis by (intro conjI p1 p2 p3 p4 p5)
qed

theorem pricePerToken_division_witness:
  "pricePerToken 5000000000000000 10000000000000000000 = Inr 500000000000000 \<and>
   snd (call (test_env 2 1700000000 1000000000) (ExecuteMint 3 10000000000000000000) funded)
     = Returned Done \<and>
   snd (call (test_env 2 1700000000 1000000000) (ExecuteMint 3 10000000000000000000) funded)
     \<noteq> Failed (Panic DivisionByZero) \<and>
   call (test_env 1 1700000000 1000000000)
     (UpdateConfig 1000000000000000 1000 100000000000000000000 0 True 300 10) funded
     = (zero_floor, Returned Done) \<and>
   minMintAmount (config zero_floor) = 0 \<and>
   call (test_env 2 1700000000 1000000000) (ExecuteMint 3 0) zero_floor
     = (zero_floor, Failed (Panic DivisionByZero))"
proof -
  let ?m = "test_env 2 1700000000 1000000000"
  let ?o = "test_env 1 1700000000 1000000000"
  let ?a = "10000000000000000000 :: uint256"
  have w1: "pricePerToken 5000000000000000 ?a = Inr 500000000000000"
    by (simp add: arith_defs)
  have w2: "snd (call ?m (ExecuteMint 3 ?a) funded) = Returned Done"
    by (simp add: commit_def executeMint_def executeMint_body_def onlyRole_def nonReentrant_def
          fixture_defs arith_defs)
  have w3: "snd (call ?m (ExecuteMint 3 ?a) funded) \<noteq> Failed (Panic DivisionByZero)"
    using pricePerToken_division [of 5000000000000000 ?a 500000000000000 ?m 3 funded]
    by (simp add: funded_def deployed_def)
  have w4: "call ?o (UpdateConfig 1000000000000000 1000 100000000000000000000 0 True 300 10) funded
     = (zero_floor, Returned Done)"
    by (simp add: commit_def updateConfig_def onlyRole_def one_day_def zero_floor_def fixture_defs)
  have w5: "minMintAmount (config zero_floor) = 0"
    by (simp add: zero_floor_def)
  have w6: "call ?m (ExecuteMint 3 0) zero_floor = (zero_floor, Failed (Panic DivisionByZero))"
    using pricePerToken_division [of 0 0 0 ?m 3 zero_floor]
    by (simp add: zero_floor_def fixture_defs arith_defs)
  from w1 w2 w3 w4 w5 w6 show ?thesis by (intro conjI)
qed

section \<open>The cooldown timer\<close>

text \<open>
  C7. Over any history of calls \<open>lastMintTimestamp\<close> does not decrease; a call
  changes it only if it is an \<^verbatim>\<open>executeMint\<close> that succeeds; and of two successful
  mints, whoever made them and whatever calls lie between, the later one is at least
  the cooldown period (the one in force when it is made) after the earlier one.
\<close>

theorem lastMintTimestamp_monotone:
  "lastMintTimestamp s \<le> lastMintTimestamp (run tr s) \<and>
   (lastMintTimestamp (fst (call e opn s)) \<noteq> lastMintTimestamp s \<longrightarrow>
      (\<exists>r a. opn = ExecuteMint r a) \<and> snd (call e opn s) = Returned Done) \<and>
   (snd (call e1 (ExecuteMint r1 a1) s) = Returned Done \<and>
    snd (call e2 (ExecuteMint r2 a2) (run tr (fst (call e1 (ExecuteMint r1 a1) s))))
      = Returned Done \<longrightarrow>
      unat (block_timestamp e1)
        + unat (cooldownPeriod (config (run tr (fst (call e1 (ExecuteMint r1 a1) s)))))
        \<le> unat (block_timestamp e2))"
proof -
  have m1: "lastMintTimestamp s \<le> lastMintTimestamp (run tr s)"
    by (simp add: word_le_nat_alt run_lastMint_mono)
  have m2: "lastMintTimestamp (fst (call e opn s)) \<noteq> lastMintTimestamp s \<longrightarrow>
      (\<exists>r a. opn = ExecuteMint r a) \<and> snd (call e opn s) = Returned Done"
  proof (intro impI conjI)
    assume changed: "lastMintTimestamp (fst (call e opn s)) \<noteq> lastMintTimestamp s"
    show "\<exists>r a. opn = ExecuteMint r a"
    proof (rule ccontr)
      assume "\<not> (\<exists>r a. opn = ExecuteMint r a)"
      then have "\<forall>r a. opn \<noteq> ExecuteMint r a" by simp
      then have "lastMintTimestamp (fst (call e opn s)) = lastMintTimestamp s"
        by (rule call_other_keeps_lastMint)
      with changed show False by simp
    qed
    show "snd (call e opn s) = Returned Done"
    proof (rule ccontr)
      assume "snd (call e opn s) \<noteq> Returned Done"
      then have "fst (call e opn s) = s" by (rule call_mint_failed_keeps_state)
      with changed show False by simp
    qed
  qed
  have m3: "snd (call e1 (ExecuteMint r1 a1) s) = Returned Done \<and>
    snd (call e2 (ExecuteMint r2 a2) (run tr (fst (call e1 (ExecuteMint r1 a1) s))))
      = Returned Done \<longrightarrow>
      unat (block_timestamp e1)
        + unat (cooldownPeriod (config (run tr (fst (call e1 (ExecuteMint r1 a1) s)))))
        \<le> unat (block_timestamp e2)"
  proof
    let ?s1 = "fst (call e1 (ExecuteMint r1 a1) s)"
    let ?s2 = "run tr ?s1"
    assume h: "snd (call e1 (ExecuteMint r1 a1) s) = Returned Done \<and>
      snd (call e2 (ExecuteMint r2 a2) ?s2) = Returned Done"
    then have first: "lastMintTimestamp ?s1 = block_timestamp e1"
      using mint_success_D [of e1 r1 a1 s] by simp
    have "unat (lastMintTimestamp ?s1) \<le> unat (lastMintTimestamp ?s2)"
      by (rule run_lastMint_mono)
    moreover from h
    have "unat (lastMintTimestamp ?s2) + unat (cooldownPeriod (config ?s2))
            \<le> unat (block_timestamp e2)"
      using mint_success_D [of e2 r2 a2 ?s2] by simp
    ultimately show "unat (block_timestamp e1) + unat (cooldownPeriod (config ?s2))
        \<le> unat (block_timestamp e2)"
      using first by simp
  qed
  show ?thesis by (intro conjI m1 m2 m3)
qed

theorem lastMintTimestamp_monotone_witness:
  "lastMintTimestamp (fst (call (test_env 2 1700000000 1000000000)
                            (ExecuteMint 3 10000000000000000000) funded))
     \<noteq> lastMintTimestamp funded \<and>
   snd (call (test_env 2 1700000000 1000000000) (ExecuteMint 3 10000000000000000000) funded)
     = Returned Done \<and>
   snd (call (test_env 2 1700000300 1000000000) (ExecuteMint 3 10000000000000000000)
          (run [(test_env 1 1700000100 1000000000, Receive 5)]
             (fst (call (test_env 2 1700000000 1000000000)
                     (ExecuteMint 3 10000000000000000000) funded))))
     = Returned Done \<and>
   unat (block_timestamp (test_env 2 1700000000 1000000000))
     + unat (cooldownPeriod (config
         (run [(test_env 1 1700000100 1000000000, Receive 5)]
            (fst (call (test_env 2 1700000000 1000000000)
                    (ExecuteMint 3 10000000000000000000) funded)))))
     \<le> unat (block_timestamp (test_env 2 1700000300 1000000000)) \<and>
   snd (call (test_env 2 1700000299 1000000000) (ExecuteMint 3 10000000000000000000)
          (run [(test_env 1 1700000100 1000000000, Receive 5)]
             (fst (call (test_env 2 1700000000 1000000000)
                     (ExecuteMint 3 10000000000000000000) funded))))
     = Failed (Revert ''Cooldown active'')"
proof -
  let ?a = "10000000000000000000 :: uint256"
  let ?e1 = "test_env 2 1700000000 1000000000"
  let ?e2 = "test_env 2 1700000300 1000000000"
  let ?tr = "[(test_env 1 1700000100 1000000000, Receive 5)]"
  have first: "call ?e1 (ExecuteMint 3 ?a) funded =
     (funded\<lparr>eth_balance := 995000000000000000, lastMintTimestamp := 1700000000,
        events := [TokensMinted 3 ?a 5000000000000000 1]\<rparr>, Returned Done)"
    by (simp add: commit_def executeMint_def executeMint_body_def onlyRole_def nonReentrant_def
          fixture_defs arith_defs)
  have mid: "run ?tr (fst (call ?e1 (ExecuteMint 3 ?a) funded)) =
     funded\<lparr>eth_balance := 995000000000000005, lastMintTimestamp := 1700000000,
        events := [TokensMinted 3 ?a 5000000000000000 1]\<rparr>"
    unfolding first by (simp add: commit_def receive_def fixture_defs)
  have second: "snd (call ?e2 (ExecuteMint 3 ?a) (run ?tr (fst (call ?e1 (ExecuteMint 3 ?a) funded))))
     = Returned Done"
    unfolding mid
    by (simp add: commit_def executeMint_def executeMint_body_def onlyRole_def nonReentrant_def
          fixture_defs arith_defs)
  have early: "snd (call (test_env 2 1700000299 1000000000) (ExecuteMint 3 ?a)
          (run ?tr (fst (call ?e1 (ExecuteMint 3 ?a) funded))))
     = Failed (Revert ''Cooldown active'')"
    unfolding mid
    by (simp add: commit_def executeMint_def executeMint_body_def onlyRole_def nonReentrant_def
          fixture_defs arith_defs)
  have changed: "lastMintTimestamp (fst (call ?e1 (ExecuteMint 3 ?a) funded))
     \<noteq> lastMintTimestamp funded"
    unfolding first by (simp add: fixture_defs)
  have ok1: "snd (call ?e1 (ExecuteMint 3 ?a) funded) = Returned Done"
    unfolding first by simp
  from lastMintTimestamp_monotone [of funded ?tr ?e1 "ExecuteMint 3 ?a" ?e1 3 ?a ?e2 3 ?a]
    ok1 second
  have gap: "unat (block_timestamp ?e1)
     + unat (cooldownPeriod (config (run ?tr (fst (call ?e1 (ExecuteMint 3 ?a) funded)))))
     \<le> unat (block_timestamp ?e2)"
    by blast
  from changed ok1 second gap early show ?thesis by (intro conjI)
qed

section \<open>Withdrawal\<close>

text \<open>
  C8. For an owner, \<^verbatim>\<open>withdrawETH(to, 0)\<close> with a nonzero recipient for which the
  transfer succeeds and a positive balance sends the whole balance with the call and
  emits the event with the balance from before the call; the controller is left with
  what came back during the call. A recipient that keeps the ether leaves it with
  zero; when the recipient is the controller's own address the balance is what it
  was. The call fails when the recipient is the zero address, when the resolved
  amount is zero, when the amount exceeds the balance, and when the transfer fails.
\<close>

theorem withdrawETH_all:
  assumes "(OWNER_ROLE, msg_sender e) \<in> roles s" and "\<not> entered s"
  shows
    "(to \<noteq> 0 \<and> 0 < eth_balance s \<and> eth_transfer e to (eth_balance s) = Some back \<longrightarrow>
        call e (WithdrawETH to 0) s =
          (s\<lparr>eth_balance := back, events := events s @ [ETHWithdrawn to (eth_balance s)]\<rparr>,
           Returned Done)) \<and>
     (to \<noteq> 0 \<and> to \<noteq> address_this e \<and> 0 < eth_balance s \<and>
      eth_call e to (eth_balance s) = Some 0 \<longrightarrow>
        call e (WithdrawETH to 0) s =
          (s\<lparr>eth_balance := 0, events := events s @ [ETHWithdrawn to (eth_balance s)]\<rparr>,
           Returned Done)) \<and>
     (to \<noteq> 0 \<and> to = address_this e \<and> 0 < eth_balance s \<longrightarrow>
        call e (WithdrawETH to 0) s =
          (s\<lparr>events := events s @ [ETHWithdrawn to (eth_balance s)]\<rparr>, Returned Done)) \<and>
     (to = 0 \<longrightarrow>
        call e (WithdrawETH to amount) s = (s, Failed (Revert ''Invalid recipient''))) \<and>
     (to \<noteq> 0 \<and> (if amount = 0 then eth_balance s else amount) = 0 \<longrightarrow>
        call e (WithdrawETH to amount) s = (s, Failed (Revert ''No ETH to withdraw''))) \<and>
     (to \<noteq> 0 \<and> eth_balance s < amount \<longrightarrow>
        call e (WithdrawETH to amount) s = (s, Failed (Revert ''Insufficient balance''))) \<and>
     (to \<noteq> 0 \<and> 0 < (if amount = 0 then eth_balance s else amount) \<and>
      (if amount = 0 then eth_balance s else amount) \<le> eth_balance s \<and>
      eth_transfer e to (if amount = 0 then eth_balance s else amount) = None \<longrightarrow>
        call e (WithdrawETH to amount) s = (s, Failed (Revert ''ETH transfer failed'')))"
proof -
  from assms have body:
    "\<And>amount. call e (WithdrawETH to amount) s = commit s (withdrawETH_body e to amount s)"
    by (simp add: withdrawETH_authorised)
  have same: "s\<lparr>eth_balance := eth_balance s\<rparr> = s"
    by (cases s) simp
  have w1: "to \<noteq> 0 \<and> 0 < eth_balance s \<and> eth_transfer e to (eth_balance s) = Some back \<longrightarrow>
        call e (WithdrawETH to 0) s =
          (s\<lparr>eth_balance := back, events := events s @ [ETHWithdrawn to (eth_balance s)]\<rparr>,
           Returned Done)"
    unfolding body by (simp add: commit_def withdrawETH_body_def)
  have w1a: "to \<noteq> 0 \<and> to \<noteq> address_this e \<and> 0 < eth_balance s \<and>
      eth_call e to (eth_balance s) = Some 0 \<longrightarrow>
        call e (WithdrawETH to 0) s =
          (s\<lparr>eth_balance := 0, events := events s @ [ETHWithdrawn to (eth_balance s)]\<rparr>,
           Returned Done)"
    unfolding body by (simp add: commit_def withdrawETH_body_def eth_transfer_def)
  have w1b: "to \<noteq> 0 \<and> to = address_this e \<and> 0 < eth_balance s \<longrightarrow>
        call e (WithdrawETH to 0) s =
          (s\<lparr>events := events s @ [ETHWithdrawn to (eth_balance s)]\<rparr>, Returned Done)"
    unfolding body using same by (simp add: commit_def withdrawETH_body_def eth_transfer_def)
  have w2: "to = 0 \<longrightarrow>
        call e (WithdrawETH to amount) s = (s, Failed (Revert ''Invalid recipient''))"
    unfolding body by (simp add: commit_def withdrawETH_body_def)
  have w3: "to \<noteq> 0 \<and> (if amount = 0 then eth_balance s else amount) = 0 \<longrightarrow>
        call e (WithdrawETH to amount) s = (s, Failed (Revert ''No ETH to withdraw''))"
    unfolding body by (simp add: commit_def withdrawETH_body_def)
  have w4: "to \<noteq> 0 \<and> eth_balance s < amount \<longrightarrow>
        call e (WithdrawETH to amount) s = (s, Failed (Revert ''Insufficient balance''))"
    unfolding body by (auto simp: commit_def withdrawETH_body_def Let_def word_gt_0 not_le)
  have w5: "to \<noteq> 0 \<and> 0 < (if amount = 0 then eth_balance s else amount) \<and>
      (if amount = 0 then eth_balance s else amount) \<le> eth_balance s \<and>
      eth_transfer e to (if amount = 0 then eth_balance s else amount) = None \<longrightarrow>
        call e (WithdrawETH to amount) s = (s, Failed (Revert ''ETH transfer failed''))"
    unfolding body by (simp add: commit_def withdrawETH_body_def Let_def)
  show ?thesis by (intro conjI w1 w1a w1b w2 w3 w4 w5)
qed

theorem withdrawETH_all_witness:
  "call (test_env 1 1700000000 1000000000) (WithdrawETH 1 0) funded =
     (funded\<lparr>eth_balance := 0, events := [ETHWithdrawn 1 1000000000000000000]\<rparr>,
      Returned Done) \<and>
   call (test_env 1 1700000000 1000000000) (WithdrawETH 5 0) funded =
     (funded\<lparr>events := [ETHWithdrawn 5 1000000000000000000]\<rparr>, Returned Done) \<and>
   call ((test_env 1 1700000000 1000000000)\<lparr>eth_call := (\<lambda>to w. Some 400)\<rparr>)
     (WithdrawETH 1 0) funded =
     (funded\<lparr>eth_balance := 400, events := [ETHWithdrawn 1 1000000000000000000]\<rparr>,
      Returned Done) \<and>
   call (test_env 1 1700000000 1000000000) (WithdrawETH 0 0) funded =
     (funded, Failed (Revert ''Invalid recipient'')) \<and>
   call (test_env 1 1700000000 1000000000) (WithdrawETH 1 0) deployed =
     (deployed, Failed (Revert ''No ETH to withdraw'')) \<and>
   call (test_env 1 1700000000 1000000000) (WithdrawETH 1 2000000000000000000) funded =
     (funded, Failed (Revert ''Insufficient balance'')) \<and>
   call ((test_env 1 1700000000 1000000000)\<lparr>eth_call := (\<lambda>to w. None)\<rparr>)
     (WithdrawETH 1 0) funded =
     (funded, Failed (Revert ''ETH transfer failed''))"
proof -
  let ?e = "test_env 1 1700000000 1000000000"
  have w1: "call ?e (WithdrawETH 1 0) funded =
     (funded\<lparr>eth_balance := 0, events := [ETHWithdrawn 1 1000000000000000000]\<rparr>,
      Returned Done)"
    using withdrawETH_all [of ?e funded 1 0] by (simp add: fixture_defs)
  have w1b: "call ?e (WithdrawETH 5 0) funded =
     (funded\<lparr>events := [ETHWithdrawn 5 1000000000000000000]\<rparr>, Returned Done)"
    using withdrawETH_all [of ?e funded 5 0] by (simp add: fixture_defs)
  have w1c: "call (?e\<lparr>eth_call := (\<lambda>to w. Some 400)\<rparr>) (WithdrawETH 1 0) funded =
     (funded\<lparr>eth_balance := 400, events := [ETHWithdrawn 1 1000000000000000000]\<rparr>,
      Returned Done)"
    using withdrawETH_all [of "?e\<lparr>eth_call := (\<lambda>to w. Some 400)\<rparr>" funded 1 400]
    by (simp add: fixture_defs eth_transfer_def)
  have w2: "call ?e (WithdrawETH 0 0) funded = (funded, Failed (Revert ''Invalid recipient''))"
    using withdrawETH_all [of ?e funded 0 0] by (simp add: fixture_defs)
  have w3: "call ?e (WithdrawETH 1 0) deployed = (deployed, Failed (Revert ''No ETH to withdraw''))"
    using withdrawETH_all [of ?e deployed 1 0] by (simp add: fixture_defs)
  have w4: "call ?e (WithdrawETH 1 2000000000000000000) funded =
     (funded, Failed (Revert ''Insufficient balance''))"
    using withdrawETH_all [of ?e funded 1 0 2000000000000000000] by (simp add: fixture_defs)
  have w5: "call (?e\<lparr>eth_call := (\<lambda>to w. None)\<rparr>) (WithdrawETH 1 0) funded =
     (funded, Failed (Revert ''ETH transfer failed''))"
    using withdrawETH_all [of "?e\<lparr>eth_call := (\<lambda>to w. None)\<rparr>" funded 1 0 0]
    by (simp add: fixture_defs eth_transfer_def)
  from w1 w1b w1c w2 w3 w4 w5 show ?thesis by (intro conjI)
qed

section \<open>The Monitor\<close>

text \<open>
  C4, as stated: on a tick with mining enabled and \<open>canMintNow\<close> false the Monitor
  skips without reading \<^verbatim>\<open>checkProfitability\<close>. It does not hold: the read is made
  before \<open>canMintNow\<close> is looked at.
\<close>

theorem checkAndMine_skips_unread_counterexample:
  "on_getMiningStatus cooling_responses = Inr cooling_status \<and>
   isEnabled cooling_status \<and> \<not> canMintNow cooling_status \<and>
   Read_checkProfitability \<in> set (fst (checkAndMine cooling_responses 3 fresh_stats)) \<and>
   fst (checkAndMine cooling_responses 3 fresh_stats) =
     [Read_getMiningStatus, Read_checkProfitability,
      Log (LogCheck 500000000000000 1 995000000000000000),
      Log (LogCooldownActive 1700000300)]"
  by (simp add: checkAndMine_def checkAndMine_try_def cooling_responses_def cooling_status_def
        fresh_stats_def)

text \<open>
  C4, amended. On every tick where the status read succeeds and mining is enabled, the
  Monitor reads \<^verbatim>\<open>checkProfitability\<close> right after \<^verbatim>\<open>getMiningStatus\<close>, before it
  tests \<open>canMintNow\<close>. When \<open>canMintNow\<close> is false no \<^verbatim>\<open>executeMint\<close> is
  submitted and no mint is counted; with the profitability read answered, the tick is
  the two reads, the check line and the cooldown line.
\<close>

theorem checkAndMine_reads_then_checks:
  assumes "on_getMiningStatus r = Inr st" and "isEnabled st"
  shows
    "take 2 (fst (checkAndMine r recipient counters))
       = [Read_getMiningStatus, Read_checkProfitability] \<and>
     (\<not> canMintNow st \<longrightarrow>
        (\<forall>to amount gasLimit.
           Send_executeMint to amount gasLimit \<notin> set (fst (checkAndMine r recipient counters))) \<and>
        mintsExecuted (snd (checkAndMine r recipient counters)) = mintsExecuted counters) \<and>
     (\<not> canMintNow st \<and> on_checkProfitability r = Inr (profitable, price, recommended) \<longrightarrow>
        checkAndMine r recipient counters =
          ([Read_getMiningStatus, Read_checkProfitability,
            Log (LogCheck price (currentEpochId st) (ethBalance st)),
            Log (LogCooldownActive (nextMintTime st))],
           counters\<lparr>checksPerformed := checksPerformed counters + 1\<rparr>))"
proof -
  have t1: "take 2 (fst (checkAndMine r recipient counters))
       = [Read_getMiningStatus, Read_checkProfitability]"
    using assms
    by (auto simp: checkAndMine_def checkAndMine_try_def Let_def
          split: sum.splits option.splits prod.splits)
  have t2: "\<not> canMintNow st \<longrightarrow>
        (\<forall>to amount gasLimit.
           Send_executeMint to amount gasLimit \<notin> set (fst (checkAndMine r recipient counters))) \<and>
        mintsExecuted (snd (checkAndMine r recipient counters)) = mintsExecuted counters"
    using assms
    by (auto simp: checkAndMine_def checkAndMine_try_def Let_def
          split: sum.splits option.splits prod.splits)
  have t3: "\<not> canMintNow st \<and> on_checkProfitability r = Inr (profitable, price, recommended) \<longrightarrow>
        checkAndMine r recipient counters =
          ([Read_getMiningStatus, Read_checkProfitability,
            Log (LogCheck price (currentEpochId st) (ethBalance st)),
            Log (LogCooldownActive (nextMintTime st))],
           counters\<lparr>checksPerformed := checksPerformed counters + 1\<rparr>)"
    using assms
    by (simp add: checkAndMine_def checkAndMine_try_def Let_def)
  show ?thesis by (intro conjI t1 t2 t3)
qed

theorem checkAndMine_reads_then_checks_witness:
  "on_getMiningStatus cooling_responses = Inr cooling_status \<and>
   isEnabled cooling_status \<and> \<not> canMintNow cooling_status \<and>
   take 2 (fst (checkAndMine cooling_responses 3 fresh_stats))
     = [Read_getMiningStatus, Read_checkProfitability] \<and>
   checkAndMine cooling_responses 3 fresh_stats =
     ([Read_getMiningStatus, Read_checkProfitability,
       Log (LogCheck 500000000000000 1 995000000000000000),
       Log (LogCooldownActive 1700000300)],
      \<lparr>checksPerformed = 1, mintsExecuted = 0, errors = 0\<rparr>)"
proof -
  have a: "on_getMiningStatus cooling_responses = Inr cooling_status"
    by (simp add: cooling_responses_def)
  have b: "isEnabled cooling_status" and c: "\<not> canMintNow cooling_status"
    by (simp_all add: cooling_status_def)
  have d: "on_checkProfitability cooling_responses
             = Inr (True, 500000000000000, 100000000000000000000)"
    by (simp add: cooling_responses_def)
  from checkAndMine_reads_then_checks [OF a b, of 3 fresh_stats True 500000000000000
         100000000000000000000] c d
  have "take 2 (fst (checkAndMine cooling_responses 3 fresh_stats))
     = [Read_getMiningStatus, Read_checkProfitability]"
    and "checkAndMine cooling_responses 3 fresh_stats =
     ([Read_getMiningStatus, Read_checkProfitability,
       Log (LogCheck 500000000000000 1 995000000000000000),
       Log (LogCooldownActive 1700000300)],
      \<lparr>checksPerformed = 1, mintsExecuted = 0, errors = 0\<rparr>)"
    by (simp_all add: cooling_status_def fresh_stats_def)
  with a b c show ?thesis by (intro conjI)
qed

end
